theory Spec2Isabelle
  imports Complex_Main "HOL-Library.AList"
begin

section \<open>Values of the guest language\<close>

text \<open>
  Guest numbers are IEEE doubles.  The engine code embedded below only compares them,
  takes maxima, adds one to an array index and converts to unsigned 32-bit integers;
  on these operations a finite double behaves as the rational it denotes (negative
  zero is identified with zero, which no operation below distinguishes).
\<close>

datatype num = NaN | PInf | NInf | Fin rat

datatype val = VUndef | VNull | VBool bool | VNum num | VStr string | VObj nat

text \<open>\<open>Boolean(v)\<close> of the host language.\<close>

fun truthy :: "val \<Rightarrow> bool" where
  "truthy VUndef = False"
| "truthy VNull = False"
| "truthy (VBool b) = b"
| "truthy (VNum n) = (n \<noteq> NaN \<and> n \<noteq> Fin 0)"
| "truthy (VStr s) = (s \<noteq> [])"
| "truthy (VObj a) = True"

text \<open>\<open>a === b\<close>: identity on objects, equality on primitives, \<open>NaN\<close> differs from itself.\<close>

definition strict_eq :: "val \<Rightarrow> val \<Rightarrow> bool" where
  "strict_eq a b = (a = b \<and> a \<noteq> VNum NaN)"

text \<open>\<open>a < b\<close> and \<open>Math.max(a, b)\<close> on numbers.\<close>

fun num_less :: "num \<Rightarrow> num \<Rightarrow> bool" where
  "num_less NaN b = False"
| "num_less a NaN = False"
| "num_less PInf b = False"
| "num_less a NInf = False"
| "num_less NInf b = True"
| "num_less a PInf = True"
| "num_less (Fin x) (Fin y) = (x < y)"

definition num_max :: "num \<Rightarrow> num \<Rightarrow> num" where
  "num_max a b = (if a = NaN \<or> b = NaN then NaN else if num_less a b then b else a)"

text \<open>\<open>x >>> 0\<close> on a number: truncate towards zero, then reduce modulo \<open>2^32\<close>.\<close>

definition trunc :: "rat \<Rightarrow> int" where
  "trunc q = (if 0 \<le> q then \<lfloor>q\<rfloor> else \<lceil>q\<rceil>)"

fun to_uint32 :: "num \<Rightarrow> nat" where
  "to_uint32 (Fin q) = nat (trunc q mod 2 ^ 32)"
| "to_uint32 n = 0"

text \<open>\<open>String(n)\<close> for a non-negative integer \<open>n\<close>: its decimal numeral.\<close>

definition digit :: "nat \<Rightarrow> char" where
  "digit d = ''0123456789'' ! d"

fun dec :: "nat \<Rightarrow> string" where
  "dec n = (if n < 10 then [digit n] else dec (n div 10) @ [digit (n mod 10)])"

section \<open>The syntax tree consumed from the parser\<close>

text \<open>
  Every node carries its \<open>end\<close> offset; \<open>nend = 0\<close> stands for a node whose \<open>end\<close> is
  absent or zero (both are falsy in the test \<open>!node['end']\<close> of \<open>step\<close>).  Node types
  whose handlers are not embedded here are kept as \<open>OtherNode\<close> with their type name.
\<close>

datatype node =
    Program (nend: nat) "node list"
  | ExpressionStatement (nend: nat) node
  | BlockStatement (nend: nat) "node list"
  | ThrowStatement (nend: nat) node
  | TryStatement (nend: nat) node "node option" "node option"
  | CatchClause (nend: nat) string node
  | Literal (nend: nat) val
  | Identifier (nend: nat) string
  | UnaryExpression (nend: nat) string node
  | CallExpression (nend: nat) node "node list"
  | NewExpression (nend: nat) node "node list"
  | WhileStatement (nend: nat) node node
  | OtherNode (nend: nat) string

fun ntype :: "node \<Rightarrow> string" where
  "ntype (Program e b) = ''Program''"
| "ntype (ExpressionStatement e x) = ''ExpressionStatement''"
| "ntype (BlockStatement e b) = ''BlockStatement''"
| "ntype (ThrowStatement e x) = ''ThrowStatement''"
| "ntype (TryStatement e b h f) = ''TryStatement''"
| "ntype (CatchClause e p b) = ''CatchClause''"
| "ntype (Literal e v) = ''Literal''"
| "ntype (Identifier e x) = ''Identifier''"
| "ntype (UnaryExpression e opr x) = ''UnaryExpression''"
| "ntype (CallExpression e c as) = ''CallExpression''"
| "ntype (NewExpression e c as) = ''NewExpression''"
| "ntype (WhileStatement e c b) = ''WhileStatement''"
| "ntype (OtherNode e t) = t"

section \<open>Guest objects\<close>

text \<open>
  \<open>obj.properties\<close> is a host object without prototype.  Each of its own properties has
  a value and the three attributes of a host data property; keys are kept in creation
  order.  (\<open>for (k in obj.properties)\<close> visits the enumerable ones, the array indices
  first in ascending order, then the other keys in creation order: \<open>enumerable_keys\<close>
  below.)
\<close>

record pdesc =
  pvalue :: val
  writable :: bool
  enumerable :: bool
  configurable :: bool

type_synonym props = "(string \<times> pdesc) list"

text \<open>What a function object runs: \<open>func.node\<close> with \<open>func.parentScope\<close>, \<open>func.nativeFunc\<close>
  and \<open>func.asyncFunc\<close> (host functions, named by their \<open>id\<close>), and the \<open>eval\<close> marker.\<close>

record obj =
  proto :: "nat option"
  cls :: string
  data :: val
  properties :: props
  getter :: "(string \<times> val) list"
  setter :: "(string \<times> val) list"
  preventExtensions :: bool
  illegalConstructor :: bool
  fnode :: "(node \<times> nat) option"
  nativeFunc :: "nat option"
  asyncFunc :: "nat option"
  evalf :: bool

text \<open>\<open>new S8Interpreter.Object(proto)\<close>.\<close>

definition new_Object :: "nat option \<Rightarrow> obj" where
  "new_Object p = \<lparr> proto = p, cls = ''Object'', data = VNull, properties = [],
     getter = [], setter = [], preventExtensions = False, illegalConstructor = False,
     fnode = None, nativeFunc = None, asyncFunc = None, evalf = False \<rparr>"

record scope =
  parentScope :: "nat option"
  strict :: bool
  sobject :: nat

section \<open>Frames of the state stack\<close>

datatype ctype = NORMAL | BREAK | CONTINUE | RETURN | THROW

text \<open>A frame's \<open>value\<close> is a guest value or, in component mode, a reference: the pair
  \<open>[SCOPE_REFERENCE, name]\<close> or \<open>[object, key]\<close>.\<close>

datatype fval = Val val | ScopeRef string | PropRef val val

record frame =
  fnode_of :: node
  fscope :: nat
  fvalue :: fval
  components :: bool
  fdone :: bool
  fdone' :: bool
  n_idx :: nat
  labels :: "string list option"
  isLoop :: bool
  isSwitch :: bool
  cv :: "(ctype \<times> val \<times> string option) option"
  doneBlock :: bool
  doneHandler :: bool
  doneFinalizer :: bool
  throwValue :: val
  doneCallee :: nat
  func :: val
  funcThis :: val
  arguments :: "val list"
  doneArgs :: bool
  doneExec :: bool
  isConstructor :: bool
  directEval :: bool
  ftest :: bool

text \<open>\<open>new S8Interpreter.State(node, scope)\<close>: every other field is absent.  (A field the source
  spells with a trailing underscore is written without it; \<open>done\<close> and \<open>done_\<close> are
  \<open>fdone\<close> and \<open>fdone'\<close>, \<open>n_\<close> is \<open>n_idx\<close>, \<open>test_\<close> is \<open>ftest\<close>, which a \<open>while\<close> loop only
  tests for being falsy.)\<close>

definition State :: "node \<Rightarrow> nat \<Rightarrow> frame" where
  "State n sc = \<lparr> fnode_of = n, fscope = sc, fvalue = Val VUndef, components = False,
     fdone = False, fdone' = False, n_idx = 0, labels = None, isLoop = False, isSwitch = False,
     cv = None, doneBlock = False, doneHandler = False, doneFinalizer = False,
     throwValue = VUndef, doneCallee = 0, func = VUndef, funcThis = VUndef,
     arguments = [], doneArgs = False, doneExec = False, isConstructor = False,
     directEval = False, ftest = False \<rparr>"

section \<open>The interpreter\<close>

text \<open>
  The state of one interpreter after its constructor has returned: the guest heap
  (objects named by their index), the scopes (named by their index), the state stack,
  the flags, and the built-in constructors and prototypes the engine keeps in fields.
  The stack is written with its top frame first: the head of the list is the source's
  \<open>stack[stack.length - 1]\<close>, the last element is the root frame \<open>stack[0]\<close>.
  \<open>native_log\<close> records every invocation of a host function.
\<close>

record interp =
  heap :: "obj list"
  scopes :: "scope list"
  stateStack :: "frame list"
  paused :: bool
  getterStep :: bool
  setterStep :: bool
  ivalue :: fval
  globalScope :: nat
  globalObject :: nat
  OBJECT_PROTO :: nat
  ARRAY_PROTO :: nat
  ARRAY :: nat
  STRING :: nat
  NUMBER :: nat
  BOOLEAN :: nat
  DATE :: nat
  REGEXP :: nat
  ERROR :: nat
  TYPE_ERROR :: nat
  RANGE_ERROR :: nat
  REFERENCE_ERROR :: nat
  native_log :: "(nat \<times> val list) list"

section \<open>Errors\<close>

text \<open>
  A host exception is an error object (constructor name and message) or, when the
  engine throws a string, that string.  \<open>HostInherited k v\<close> is what leaves \<open>unwind\<close> when
  the guest error is named after a property \<open>k\<close> that the host object literal \<open>errorTable\<close>
  inherits: the code calls the inherited value on the message \<open>v\<close> and throws the result,
  unless the call itself throws.  \<open>Guest c m\<close> stands for the call
  \<open>this.throwException(c, m)\<close> and \<open>GuestValue v\<close> for \<open>this.throwException(v)\<close>, which
  never return; \<open>throwException\<close> below is what they do.  \<open>Diverge\<close> is a loop of the
  source that does not end, \<open>Unmodelled\<close> a branch of the source that is not embedded.
\<close>

datatype herr = HostError string string | HostString string | HostInherited string val

datatype errclass = C_ERROR | C_TYPE_ERROR | C_RANGE_ERROR | C_REFERENCE_ERROR

datatype exc = STEP_ERROR | Native herr | Guest errclass string | GuestValue val
  | Diverge | Unmodelled

type_synonym 'a res = "(exc + 'a) \<times> interp"

section \<open>The host\<close>

text \<open>
  Primitives of the host language that the source calls but does not define:
  \<open>Number(s)\<close> and \<open>String(n)\<close> on strings and numbers, and \<open>Number(o)\<close>, \<open>String(o)\<close>
  on a guest object \<open>o\<close> (the host runs the object's \<open>valueOf\<close> and \<open>toString\<close>).
  \<open>host_key k\<close> says that \<open>k\<close> names a property every host object literal inherits.
  \<open>native_call i this args\<close> is the host function with \<open>id\<close> \<open>i\<close> behind a \<open>nativeFunc\<close>;
  \<open>async_call i this args\<close> is the one behind an \<open>asyncFunc\<close>, and says whether it calls
  its callback before it returns, and with which value.
\<close>

record host =
  str_to_num :: "string \<Rightarrow> num"
  num_to_str :: "num \<Rightarrow> string"
  obj_to_num :: "obj list \<Rightarrow> nat \<Rightarrow> num"
  obj_to_str :: "obj list \<Rightarrow> nat \<Rightarrow> string"
  host_key :: "string \<Rightarrow> bool"
  native_call :: "nat \<Rightarrow> val \<Rightarrow> val list \<Rightarrow> interp \<Rightarrow> (exc + val) \<times> interp"
  async_call :: "nat \<Rightarrow> val \<Rightarrow> val list \<Rightarrow> val option"

fun to_number :: "host \<Rightarrow> obj list \<Rightarrow> val \<Rightarrow> num" where
  "to_number H h VUndef = NaN"
| "to_number H h VNull = Fin 0"
| "to_number H h (VBool b) = Fin (if b then 1 else 0)"
| "to_number H h (VNum n) = n"
| "to_number H h (VStr s) = str_to_num H s"
| "to_number H h (VObj a) = obj_to_num H h a"

fun to_string :: "host \<Rightarrow> obj list \<Rightarrow> val \<Rightarrow> string" where
  "to_string H h VUndef = ''undefined''"
| "to_string H h VNull = ''null''"
| "to_string H h (VBool b) = (if b then ''true'' else ''false'')"
| "to_string H h (VNum n) = num_to_str H n"
| "to_string H h (VStr s) = s"
| "to_string H h (VObj a) = obj_to_str H h a"



section \<open>Host objects used as property maps\<close>

text \<open>\<open>name in o\<close> and \<open>o[name]\<close> on a host object without prototype.\<close>

definition has_key :: "(string \<times> 'v) list \<Rightarrow> string \<Rightarrow> bool" where
  "has_key ps k = (map_of ps k \<noteq> None)"

definition native_get :: "props \<Rightarrow> string \<Rightarrow> val" where
  "native_get ps k = (case map_of ps k of None \<Rightarrow> VUndef | Some p \<Rightarrow> pvalue p)"

definition map_get :: "(string \<times> val) list \<Rightarrow> string \<Rightarrow> val" where
  "map_get m k = (case map_of m k of None \<Rightarrow> VUndef | Some v \<Rightarrow> v)"

text \<open>
  The source file is strict-mode code, so the host assignment \<open>o[k] = v\<close> to a
  non-writable property and \<open>delete o[k]\<close> on a non-configurable property throw a host
  TypeError; \<open>None\<close> is that exception.  A new key is created writable, enumerable and
  configurable, after the existing keys.
\<close>

definition native_assign :: "props \<Rightarrow> string \<Rightarrow> val \<Rightarrow> props option" where
  "native_assign ps k v = (case map_of ps k of
       None \<Rightarrow> Some (ps @ [(k, \<lparr>pvalue = v, writable = True, enumerable = True,
                               configurable = True\<rparr>)])
     | Some p \<Rightarrow> if writable p then Some (AList.update k (p\<lparr>pvalue := v\<rparr>) ps) else None)"

definition native_delete :: "props \<Rightarrow> string \<Rightarrow> props option" where
  "native_delete ps k = (case map_of ps k of
       None \<Rightarrow> Some ps
     | Some p \<Rightarrow> if configurable p then Some (AList.delete k ps) else None)"

text \<open>
  The descriptor handed to \<open>Object.defineProperty(obj.properties, name, descriptor)\<close>:
  \<open>setProperty\<close> only ever fills in \<open>configurable\<close>, \<open>enumerable\<close>, \<open>writable\<close> and
  \<open>value\<close>.  The host converts the three attributes to booleans.
\<close>

record ddesc =
  dd_configurable :: "val option"
  dd_enumerable :: "val option"
  dd_writable :: "val option"
  dd_value :: "val option"

definition or_else :: "'a option \<Rightarrow> 'a \<Rightarrow> 'a" where
  "or_else x d = (case x of None \<Rightarrow> d | Some y \<Rightarrow> y)"

text \<open>The host's validation of a redefinition; \<open>True\<close> means the host throws TypeError.\<close>

definition define_rejected :: "pdesc \<Rightarrow> ddesc \<Rightarrow> bool" where
  "define_rejected p d = (\<not> configurable p \<and>
     (map_option truthy (dd_configurable d) = Some True
      \<or> (case dd_enumerable d of None \<Rightarrow> False | Some e \<Rightarrow> truthy e \<noteq> enumerable p)
      \<or> (\<not> writable p \<and>
           (map_option truthy (dd_writable d) = Some True
            \<or> (case dd_value d of None \<Rightarrow> False | Some v \<Rightarrow> v \<noteq> pvalue p)))))"

definition native_defineProperty :: "props \<Rightarrow> string \<Rightarrow> ddesc \<Rightarrow> props option" where
  "native_defineProperty ps k d = (case map_of ps k of
       None \<Rightarrow> Some (ps @ [(k, \<lparr>pvalue = or_else (dd_value d) VUndef,
                 writable = or_else (map_option truthy (dd_writable d)) False,
                 enumerable = or_else (map_option truthy (dd_enumerable d)) False,
                 configurable = or_else (map_option truthy (dd_configurable d)) False\<rparr>)])
     | Some p \<Rightarrow> if define_rejected p d then None
         else Some (AList.update k \<lparr>pvalue = or_else (dd_value d) (pvalue p),
                 writable = or_else (map_option truthy (dd_writable d)) (writable p),
                 enumerable = or_else (map_option truthy (dd_enumerable d)) (enumerable p),
                 configurable = or_else (map_option truthy (dd_configurable d)) (configurable p)\<rparr>
               ps))"

section \<open>Array lengths and indices\<close>

text \<open>
  \<open>legalArrayLength\<close> and \<open>legalArrayIndex\<close> return a non-negative integer or \<open>NaN\<close>;
  \<open>None\<close> is \<open>NaN\<close>.  \<open>legalArrayIndex\<close> is only called on property names, which
  \<open>setProperty\<close>, \<open>getProperty\<close> and \<open>hasProperty\<close> have converted to strings.
\<close>

definition legalArrayLength :: "host \<Rightarrow> obj list \<Rightarrow> val \<Rightarrow> nat option" where
  "legalArrayLength H h x = (let n = to_uint32 (to_number H h x) in
     if Fin (of_nat n) = to_number H h x then Some n else None)"

definition legalArrayIndex :: "host \<Rightarrow> string \<Rightarrow> nat option" where
  "legalArrayIndex H x = (let n = to_uint32 (str_to_num H x) in
     if dec n = x \<and> n \<noteq> 4294967295 then Some n else None)"

section \<open>Prototype chains\<close>

definition obj_at :: "interp \<Rightarrow> nat \<Rightarrow> obj" where
  "obj_at s a = heap s ! a"

text \<open>\<open>getPrototype(value)\<close>.\<close>

definition getPrototype :: "interp \<Rightarrow> val \<Rightarrow> val" where
  "getPrototype s v = (case v of
       VNum n \<Rightarrow> native_get (properties (obj_at s (NUMBER s))) ''prototype''
     | VBool b \<Rightarrow> native_get (properties (obj_at s (BOOLEAN s))) ''prototype''
     | VStr t \<Rightarrow> native_get (properties (obj_at s (STRING s))) ''prototype''
     | VObj a \<Rightarrow> (case proto (obj_at s a) of None \<Rightarrow> VNull | Some p \<Rightarrow> VObj p)
     | _ \<Rightarrow> VNull)"

text \<open>\<open>child.proto\<close> as read by the loop of \<open>isa\<close>; a primitive has no such field.\<close>

definition proto_field :: "interp \<Rightarrow> val \<Rightarrow> val" where
  "proto_field s v = (case v of
       VObj a \<Rightarrow> (case proto (obj_at s a) of None \<Rightarrow> VNull | Some p \<Rightarrow> VObj p)
     | _ \<Rightarrow> VUndef)"

text \<open>
  The loops over a prototype chain end when the chain does.  A walk that has not ended
  after as many steps as there are objects (and the three kinds of primitive) is inside
  a cycle and never ends: the fuel \<open>chain_fuel\<close> is exact, and running out is \<open>Diverge\<close>.
\<close>

definition chain_fuel :: "interp \<Rightarrow> nat" where
  "chain_fuel s = length (heap s) + 4"

fun isa_loop :: "nat \<Rightarrow> interp \<Rightarrow> val \<Rightarrow> val \<Rightarrow> exc + bool" where
  "isa_loop 0 s child p = Inl Diverge"
| "isa_loop (Suc k) s child p =
     (if \<not> truthy child then Inr False
      else if strict_eq child p then Inr True
      else isa_loop k s (proto_field s child) p)"

definition isa :: "interp \<Rightarrow> val \<Rightarrow> nat \<Rightarrow> exc + bool" where
  "isa s child constructor =
     (if child = VNull \<or> child = VUndef then Inr False
      else let p = native_get (properties (obj_at s constructor)) ''prototype'' in
        if strict_eq child p then Inr True
        else isa_loop (chain_fuel s) s (getPrototype s child) p)"

section \<open>Reading properties\<close>

definition apostrophe :: string where
  "apostrophe = [CHR 0x27]"

text \<open>\<open>obj.properties && name in obj.properties\<close>; a primitive has no \<open>properties\<close>.\<close>

definition own_has :: "interp \<Rightarrow> val \<Rightarrow> string \<Rightarrow> bool" where
  "own_has s v name = (case v of VObj a \<Rightarrow> has_key (properties (obj_at s a)) name | _ \<Rightarrow> False)"

fun has_loop :: "nat \<Rightarrow> interp \<Rightarrow> val \<Rightarrow> string \<Rightarrow> exc + bool" where
  "has_loop 0 s v name = Inl Diverge"
| "has_loop (Suc k) s v name =
     (if own_has s v name then Inr True
      else if truthy (getPrototype s v) then has_loop k s (getPrototype s v) name
      else Inr False)"

text \<open>\<open>legalArrayIndex(name)\<close> is a number below \<open>String(obj).length\<close>.\<close>

definition index_below :: "host \<Rightarrow> interp \<Rightarrow> val \<Rightarrow> string \<Rightarrow> bool" where
  "index_below H s v name = (case legalArrayIndex H name of
       None \<Rightarrow> False | Some n \<Rightarrow> n < length (to_string H (heap s) v))"

definition hasProperty :: "host \<Rightarrow> interp \<Rightarrow> val \<Rightarrow> string \<Rightarrow> exc + bool" where
  "hasProperty H s v name = (case v of
       VObj a \<Rightarrow>
         (case isa s v (STRING s) of
            Inl e \<Rightarrow> Inl e
          | Inr is_string \<Rightarrow>
              if name = ''length'' \<and> is_string then Inr True
              else if is_string \<and> index_below H s v name then Inr True
              else has_loop (chain_fuel s) s v name)
     | _ \<Rightarrow> Inl (Native (HostError ''TypeError'' ''Primitive data type has no properties'')))"

text \<open>The loop of \<open>getProperty\<close>: the value found, and whether it is a getter to call.\<close>

fun get_loop :: "nat \<Rightarrow> interp \<Rightarrow> val \<Rightarrow> string \<Rightarrow> exc + (val \<times> bool)" where
  "get_loop 0 s v name = Inl Diverge"
| "get_loop (Suc k) s v name =
     (if own_has s v name then
        (case v of
           VObj a \<Rightarrow>
             if truthy (map_get (getter (obj_at s a)) name)
             then Inr (map_get (getter (obj_at s a)) name, True)
             else Inr (native_get (properties (obj_at s a)) name, False)
         | _ \<Rightarrow> Inr (VUndef, False))
      else if truthy (getPrototype s v) then get_loop k s (getPrototype s v) name
      else Inr (VUndef, False))"

definition getProperty :: "host \<Rightarrow> val \<Rightarrow> string \<Rightarrow> interp \<Rightarrow> val res" where
  "getProperty H v name s =
     (if getterStep s then
        (Inl (Native (HostError ''Error'' ''Getter not supported in that context'')), s)
      else if v = VUndef \<or> v = VNull then
        (Inl (Guest C_TYPE_ERROR (''Cannot read property '' @ apostrophe @ name @ apostrophe
            @ '' of '' @ to_string H (heap s) v)), s)
      else case (if name = ''length'' \<or> (name \<noteq> [] \<and> (of_char (hd name) :: nat) < 64)
                 then isa s v (STRING s) else Inr False) of
        Inl e \<Rightarrow> (Inl e, s)
      | Inr is_string \<Rightarrow>
          if name = ''length'' \<and> is_string then
            (Inr (VNum (Fin (of_nat (length (to_string H (heap s) v))))), s)
          else if name \<noteq> ''length'' \<and> is_string \<and> index_below H s v name then
            (Inr (VStr [to_string H (heap s) v ! the (legalArrayIndex H name)]), s)
          else (case get_loop (chain_fuel s) s v name of
                  Inl e \<Rightarrow> (Inl e, s)
                | Inr (x, is_getter) \<Rightarrow>
                    if is_getter then (Inr x, s\<lparr>getterStep := True\<rparr>) else (Inr x, s)))"

section \<open>Writing properties\<close>

text \<open>The optional descriptor of \<open>setProperty\<close>: a field is \<open>None\<close> when the key is not
  \<open>in\<close> the descriptor object.\<close>

record descriptor =
  d_configurable :: "val option"
  d_enumerable :: "val option"
  d_writable :: "val option"
  d_value :: "val option"
  d_get :: "val option"
  d_set :: "val option"

datatype valarg = Given val | VALUE_IN_DESCRIPTOR

definition upd_props :: "nat \<Rightarrow> props \<Rightarrow> interp \<Rightarrow> interp" where
  "upd_props a ps s = s\<lparr>heap := (heap s)[a := (obj_at s a)\<lparr>properties := ps\<rparr>]\<rparr>"

text \<open>\<open>getScope().strict\<close>; reading \<open>.scope\<close> of the top of an empty stack is a host
  TypeError.\<close>

definition getScope :: "interp \<Rightarrow> exc + nat" where
  "getScope s = (if stateStack s = []
     then Inl (Native (HostError ''TypeError'' ''Cannot read properties of undefined''))
     else Inr (fscope (hd (stateStack s))))"

definition scope_strict :: "interp \<Rightarrow> exc + bool" where
  "scope_strict s = (case getScope s of Inl e \<Rightarrow> Inl e
     | Inr sc \<Rightarrow> Inr (strict (scopes s ! sc)))"

text \<open>
  The loop that shortens an array: it visits the enumerable keys and deletes the legal
  indices that are not below the new length.  The result says whether every \<open>delete\<close>
  succeeded, and holds the properties as the loop left them.  \<open>enumerable_keys\<close> is the
  order in which the host's \<open>for ... in\<close> visits the keys: the enumerable keys that are
  array indices in ascending order, then the other enumerable keys in creation order.
\<close>

fun truncate_loop :: "host \<Rightarrow> nat \<Rightarrow> string list \<Rightarrow> props \<Rightarrow> bool \<times> props" where
  "truncate_loop H n [] ps = (True, ps)"
| "truncate_loop H n (k # ks) ps = (case legalArrayIndex H k of
       None \<Rightarrow> truncate_loop H n ks ps
     | Some i \<Rightarrow> if n \<le> i
         then (case native_delete ps k of
                 None \<Rightarrow> (False, ps)
               | Some ps' \<Rightarrow> truncate_loop H n ks ps')
         else truncate_loop H n ks ps)"

definition enumerable_keys :: "host \<Rightarrow> props \<Rightarrow> string list" where
  "enumerable_keys H ps =
     (let ks = map fst (filter (\<lambda>kp. enumerable (snd kp)) ps) in
      sort_key (\<lambda>k. the (legalArrayIndex H k)) (filter (\<lambda>k. legalArrayIndex H k \<noteq> None) ks)
      @ filter (\<lambda>k. legalArrayIndex H k = None) ks)"

definition legal_length_arg :: "host \<Rightarrow> obj list \<Rightarrow> valarg \<Rightarrow> nat option" where
  "legal_length_arg H h x = (case x of Given v \<Rightarrow> legalArrayLength H h v
     | VALUE_IN_DESCRIPTOR \<Rightarrow> None)"

text \<open>
  The branch \<open>obj.class === 'Array'\<close>.  It ends in an exception, in \<open>return\<close>
  (\<open>Inr None\<close>), or falls through with the value the rest of \<open>setProperty\<close> uses.
\<close>

definition set_length :: "host \<Rightarrow> nat \<Rightarrow> valarg \<Rightarrow> interp \<Rightarrow> (exc + valarg option) \<times> interp" where
  "set_length H a x s = (case legal_length_arg H (heap s) x of
       None \<Rightarrow> (Inl (Guest C_RANGE_ERROR ''Invalid array length''), s)
     | Some n \<Rightarrow>
         let ps = properties (obj_at s a) in
         if num_less (Fin (of_nat n)) (to_number H (heap s) (native_get ps ''length''))
         then (case truncate_loop H n (enumerable_keys H ps) ps of
                 (True, ps') \<Rightarrow> (Inr (Some (Given (VNum (Fin (of_nat n))))), upd_props a ps' s)
               | (False, ps') \<Rightarrow>
                   (Inl (Native (HostError ''TypeError'' ''Cannot delete property'')),
                    upd_props a ps' s))
         else (Inr (Some (Given (VNum (Fin (of_nat n))))), s))"

definition set_array :: "host \<Rightarrow> nat \<Rightarrow> string \<Rightarrow> valarg \<Rightarrow> descriptor option \<Rightarrow> interp
    \<Rightarrow> (exc + valarg option) \<times> interp" where
  "set_array H a name x desc s =
     (if name = ''length'' then
        (case desc of
           None \<Rightarrow> set_length H a x s
         | Some d \<Rightarrow> (case d_value d of
               None \<Rightarrow> (Inr None, s)
             | Some v \<Rightarrow> set_length H a (Given v) s))
      else (case legalArrayIndex H name of
           None \<Rightarrow> (Inr (Some x), s)
         | Some i \<Rightarrow>
             let ps = properties (obj_at s a) in
             (case native_assign ps ''length''
                     (VNum (num_max (to_number H (heap s) (native_get ps ''length''))
                                    (Fin (of_nat (i + 1))))) of
                None \<Rightarrow> (Inl (Native (HostError ''TypeError''
                                 ''Cannot assign to read only property'')), s)
              | Some ps' \<Rightarrow> (Inr (Some x), upd_props a ps' s))))"

text \<open>The loop that finds \<open>defObj\<close>, the nearest object on the chain of \<open>obj\<close> that has
  the key, or \<open>obj\<close> itself when none has.\<close>

fun def_loop :: "nat \<Rightarrow> interp \<Rightarrow> nat \<Rightarrow> nat \<Rightarrow> string \<Rightarrow> exc + nat" where
  "def_loop 0 s a0 a name = Inl Diverge"
| "def_loop (Suc k) s a0 a name =
     (if has_key (properties (obj_at s a)) name then Inr a
      else (case proto (obj_at s a) of
              None \<Rightarrow> Inr a0
            | Some p \<Rightarrow> def_loop k s a0 p name))"

definition upd_obj :: "nat \<Rightarrow> (obj \<Rightarrow> obj) \<Rightarrow> interp \<Rightarrow> interp" where
  "upd_obj a f s = s\<lparr>heap := (heap s)[a := f (obj_at s a)]\<rparr>"

text \<open>The branch \<open>if (opt_descriptor)\<close>: define the property.\<close>

definition drop_accessors :: "string \<Rightarrow> obj \<Rightarrow> obj" where
  "drop_accessors name ob = ob\<lparr>getter := AList.delete name (getter ob),
                               setter := AList.delete name (setter ob)\<rparr>"

definition put_accessor :: "val option \<Rightarrow> string \<Rightarrow> (string \<times> val) list \<Rightarrow> (string \<times> val) list" where
  "put_accessor f name m = (case f of
       None \<Rightarrow> m
     | Some g \<Rightarrow> if truthy g then AList.update name g m else AList.delete name m)"

definition define_accessors :: "descriptor \<Rightarrow> valarg \<Rightarrow> string \<Rightarrow> obj \<Rightarrow> obj" where
  "define_accessors d x name ob =
     (let ob1 = ob\<lparr>getter := put_accessor (d_get d) name (getter ob)\<rparr>;
          ob2 = ob1\<lparr>setter := put_accessor (d_set d) name (setter ob1)\<rparr>;
          ob3 = (if d_writable d \<noteq> None then drop_accessors name ob2 else ob2)
      in if d_value d \<noteq> None \<or> x \<noteq> VALUE_IN_DESCRIPTOR then drop_accessors name ob3 else ob3)"

definition host_descriptor :: "descriptor \<Rightarrow> valarg \<Rightarrow> ddesc" where
  "host_descriptor d x = \<lparr> dd_configurable = d_configurable d, dd_enumerable = d_enumerable d,
     dd_writable = d_writable d,
     dd_value = (case d_value d of Some v \<Rightarrow> Some v
                 | None \<Rightarrow> (case x of Given v \<Rightarrow> Some v | VALUE_IN_DESCRIPTOR \<Rightarrow> None)) \<rparr>"

definition set_define :: "nat \<Rightarrow> string \<Rightarrow> valarg \<Rightarrow> descriptor \<Rightarrow> interp \<Rightarrow> val res" where
  "set_define a name x d s =
     (let s1 = upd_obj a (define_accessors d x name) s in
      case native_defineProperty (properties (obj_at s1 a)) name (host_descriptor d x) of
        None \<Rightarrow> (Inl (Guest C_TYPE_ERROR (''Cannot redefine property: '' @ name)), s1)
      | Some ps \<Rightarrow> (Inr VUndef, upd_props a ps s1))"

text \<open>The branch without descriptor: set the property.\<close>

definition set_assign :: "host \<Rightarrow> bool \<Rightarrow> nat \<Rightarrow> string \<Rightarrow> valarg \<Rightarrow> interp \<Rightarrow> val res" where
  "set_assign H strict_mode a name x s = (case x of
       VALUE_IN_DESCRIPTOR \<Rightarrow> (Inl (Native (HostError ''ReferenceError'' ''Value not specified.'')), s)
     | Given v \<Rightarrow>
         (case def_loop (chain_fuel s) s a a name of
            Inl e \<Rightarrow> (Inl e, s)
          | Inr defObj \<Rightarrow>
              if truthy (map_get (setter (obj_at s defObj)) name) then
                (Inr (map_get (setter (obj_at s defObj)) name), s\<lparr>setterStep := True\<rparr>)
              else if truthy (map_get (getter (obj_at s defObj)) name) then
                (if strict_mode then
                   (Inl (Guest C_TYPE_ERROR (''Cannot set property '' @ apostrophe @ name
                      @ apostrophe @ '' of object '' @ apostrophe
                      @ to_string H (heap s) (VObj a) @ apostrophe
                      @ '' which only has a getter'')), s)
                 else (Inr VUndef, s))
              else (case native_assign (properties (obj_at s a)) name v of
                      Some ps \<Rightarrow> (Inr VUndef, upd_props a ps s)
                    | None \<Rightarrow>
                        if strict_mode then
                          (Inl (Guest C_TYPE_ERROR (''Cannot assign to read only property ''
                             @ apostrophe @ name @ apostrophe @ '' of object '' @ apostrophe
                             @ to_string H (heap s) (VObj a) @ apostrophe)), s)
                        else (Inr VUndef, s))))"

text \<open>\<open>setProperty\<close> on a guest object, from the test \<open>isa(obj, STRING)\<close> on.\<close>

definition set_object :: "host \<Rightarrow> bool \<Rightarrow> nat \<Rightarrow> string \<Rightarrow> valarg \<Rightarrow> descriptor option
    \<Rightarrow> interp \<Rightarrow> val res" where
  "set_object H strict_mode a name x desc s =
     (case isa s (VObj a) (STRING s) of
        Inl e \<Rightarrow> (Inl e, s)
      | Inr is_string \<Rightarrow>
          if is_string \<and> (name = ''length'' \<or> index_below H s (VObj a) name) then
            (if strict_mode then
               (Inl (Guest C_TYPE_ERROR (''Cannot assign to read only property '' @ apostrophe
                  @ name @ apostrophe @ '' of String '' @ apostrophe
                  @ to_string H (heap s) (data (obj_at s a)) @ apostrophe)), s)
             else (Inr VUndef, s))
          else
            (case (if cls (obj_at s a) = ''Array'' then set_array H a name x desc s
                   else (Inr (Some x), s)) of
               (Inl e, s1) \<Rightarrow> (Inl e, s1)
             | (Inr None, s1) \<Rightarrow> (Inr VUndef, s1)
             | (Inr (Some x1), s1) \<Rightarrow>
                 if preventExtensions (obj_at s1 a)
                    \<and> \<not> has_key (properties (obj_at s1 a)) name then
                   (if strict_mode then
                      (Inl (Guest C_TYPE_ERROR (''Can'' @ apostrophe @ ''t add property ''
                         @ apostrophe @ name @ apostrophe @ '', object is not extensible'')), s1)
                    else (Inr VUndef, s1))
                 else (case desc of
                         Some d \<Rightarrow> set_define a name x1 d s1
                       | None \<Rightarrow> set_assign H strict_mode a name x1 s1)))"

text \<open>
  \<open>setProperty(obj, name, value, opt_descriptor)\<close>, with \<open>name\<close> already converted to a
  string.  The result is the setter to call, or \<open>undefined\<close>.
\<close>

definition setProperty :: "host \<Rightarrow> val \<Rightarrow> string \<Rightarrow> valarg \<Rightarrow> descriptor option \<Rightarrow> interp
    \<Rightarrow> val res" where
  "setProperty H v name x desc s =
     (if setterStep s then
        (Inl (Native (HostError ''Error'' ''Setter not supported in that context'')), s)
      else if v = VUndef \<or> v = VNull then
        (Inl (Guest C_TYPE_ERROR (''Cannot set property '' @ apostrophe @ name @ apostrophe
            @ '' of '' @ to_string H (heap s) v)), s)
      else if (case desc of None \<Rightarrow> False
               | Some d \<Rightarrow> (d_get d \<noteq> None \<or> d_set d \<noteq> None)
                         \<and> (d_value d \<noteq> None \<or> d_writable d \<noteq> None)) then
        (Inl (Guest C_TYPE_ERROR (''Invalid property descriptor. ''
            @ ''Cannot both specify accessors and a value or writable attribute'')), s)
      else (case scope_strict s of
              Inl e \<Rightarrow> (Inl e, s)
            | Inr strict_mode \<Rightarrow>
                (case v of
                   VObj a \<Rightarrow> set_object H strict_mode a name x desc s
                 | _ \<Rightarrow>
                     if strict_mode then
                       (Inl (Guest C_TYPE_ERROR (''Can'' @ apostrophe @ ''t create property ''
                          @ apostrophe @ name @ apostrophe @ '' on '' @ apostrophe
                          @ to_string H (heap s) v @ apostrophe)), s)
                     else (Inr VUndef, s))))"

section \<open>Creating objects\<close>

definition createObjectProto :: "val \<Rightarrow> interp \<Rightarrow> nat res" where
  "createObjectProto p s =
     (case (case p of VNull \<Rightarrow> Some None | VObj q \<Rightarrow> Some (Some q) | _ \<Rightarrow> None) of
        None \<Rightarrow> (Inl (Native (HostError ''Error'' ''Non object prototype'')), s)
      | Some pr \<Rightarrow>
          let a = length (heap s); s1 = s\<lparr>heap := heap s @ [new_Object pr]\<rparr> in
          (case isa s1 (VObj a) (ERROR s1) of
             Inl e \<Rightarrow> (Inl e, s1)
           | Inr is_error \<Rightarrow>
               (Inr a, if is_error then upd_obj a (\<lambda>ob. ob\<lparr>cls := ''Error''\<rparr>) s1 else s1)))"

definition createObject :: "nat \<Rightarrow> interp \<Rightarrow> nat res" where
  "createObject constructor s =
     createObjectProto (native_get (properties (obj_at s constructor)) ''prototype'') s"

definition NONENUMERABLE_DESCRIPTOR :: descriptor where
  "NONENUMERABLE_DESCRIPTOR = \<lparr> d_configurable = Some (VBool True),
     d_enumerable = Some (VBool False), d_writable = Some (VBool True),
     d_value = None, d_get = None, d_set = None \<rparr>"

definition createArray :: "host \<Rightarrow> interp \<Rightarrow> nat res" where
  "createArray H s = (case createObjectProto (VObj (ARRAY_PROTO s)) s of
       (Inl e, s1) \<Rightarrow> (Inl e, s1)
     | (Inr a, s1) \<Rightarrow>
         (case setProperty H (VObj a) ''length'' (Given (VNum (Fin 0)))
                 (Some \<lparr> d_configurable = Some (VBool False), d_enumerable = Some (VBool False),
                         d_writable = Some (VBool True), d_value = None, d_get = None,
                         d_set = None \<rparr>) s1 of
            (Inl e, s2) \<Rightarrow> (Inl e, s2)
          | (Inr u, s2) \<Rightarrow> (Inr a, upd_obj a (\<lambda>ob. ob\<lparr>cls := ''Array''\<rparr>) s2)))"

section \<open>Unwinding and throwing\<close>

definition label_given :: "string option \<Rightarrow> bool" where
  "label_given l = (case l of None \<Rightarrow> False | Some x \<Rightarrow> x \<noteq> [])"

definition has_label :: "frame \<Rightarrow> string option \<Rightarrow> bool" where
  "has_label f l = (case labels f of None \<Rightarrow> False | Some ls \<Rightarrow> the l \<in> set ls)"

datatype unwound = Handled | Unhandled

text \<open>The loop of \<open>unwind\<close>: \<open>Handled\<close> when it returns, \<open>Unhandled\<close> when it leaves the
  loop for the code that throws a host error.  The result holds the stack as left.\<close>

fun unwind_loop :: "ctype \<Rightarrow> val \<Rightarrow> string option \<Rightarrow> frame list \<Rightarrow> (exc + unwound) \<times> frame list" where
  "unwind_loop ty v l [] = (Inr Unhandled, [])"
| "unwind_loop ty v l (f # fs) =
     (if ntype (fnode_of f) = ''TryStatement'' then
        (Inr Handled, f\<lparr>cv := Some (ty, v, l)\<rparr> # fs)
      else if (ntype (fnode_of f) = ''CallExpression'' \<or> ntype (fnode_of f) = ''NewExpression'')
              \<and> ty = RETURN then
        (Inr Handled, f\<lparr>fvalue := Val v\<rparr> # fs)
      else if (ntype (fnode_of f) = ''CallExpression'' \<or> ntype (fnode_of f) = ''NewExpression'')
              \<and> ty \<noteq> THROW then
        (Inl (Native (HostError ''Error'' ''Unsynatctic break/continue not rejected by Acorn'')),
         f # fs)
      else if ntype (fnode_of f) = ''Program'' then
        (Inr Unhandled, f\<lparr>fdone := True\<rparr> # fs)
      else if ty = BREAK \<and> (if label_given l then has_label f l else isLoop f \<or> isSwitch f) then
        (Inr Handled, fs)
      else if ty = CONTINUE \<and> (if label_given l then has_label f l else isLoop f) then
        (Inr Handled, f # fs)
      else unwind_loop ty v l fs)"

text \<open>\<open>x.valueOf()\<close> on a guest value.\<close>

definition value_of :: "interp \<Rightarrow> val \<Rightarrow> exc + val" where
  "value_of s x = (case x of
       VUndef \<Rightarrow> Inl (Native (HostError ''TypeError'' ''Cannot read properties of undefined''))
     | VNull \<Rightarrow> Inl (Native (HostError ''TypeError'' ''Cannot read properties of null''))
     | VObj a \<Rightarrow> Inr (if data (obj_at s a) = VUndef \<or> data (obj_at s a) = VNull
                       then VObj a else data (obj_at s a))
     | _ \<Rightarrow> Inr x)"

text \<open>\<open>errorTable[name] || Error\<close>: the name of the host constructor chosen.  The table is a
  host object literal, so for a name it inherits from the host's \<open>Object.prototype\<close> the
  lookup yields the inherited value, not a constructor of the table: \<open>None\<close>.\<close>

definition errorTable :: "host \<Rightarrow> string \<Rightarrow> string option" where
  "errorTable H name =
     (if name \<in> set [''EvalError'', ''RangeError'', ''ReferenceError'', ''SyntaxError'',
                      ''TypeError'', ''URIError''] then Some name
      else if host_key H name then None
      else Some ''Error'')"

text \<open>The code after the loop of \<open>unwind\<close>: the host error thrown for an unhandled
  completion.\<close>

definition realError :: "host \<Rightarrow> val \<Rightarrow> interp \<Rightarrow> exc \<times> interp" where
  "realError H v s = (case isa s v (ERROR s) of
       Inl e \<Rightarrow> (e, s)
     | Inr False \<Rightarrow> (Native (HostString (to_string H (heap s) v)), s)
     | Inr True \<Rightarrow>
         (case getProperty H v ''name'' s of
            (Inl e, s1) \<Rightarrow> (e, s1)
          | (Inr nm, s1) \<Rightarrow>
              (case getProperty H v ''message'' s1 of
                 (Inl e, s2) \<Rightarrow> (e, s2)
               | (Inr msg, s2) \<Rightarrow>
                   (case value_of s2 msg of
                      Inl e \<Rightarrow> (e, s2)
                    | Inr m \<Rightarrow>
                        (case errorTable H (to_string H (heap s1) nm) of
                           None \<Rightarrow> (Native (HostInherited (to_string H (heap s1) nm) m), s2)
                         | Some ctor \<Rightarrow>
                             (Native (HostError ctor
                                (if m = VUndef then [] else to_string H (heap s2) m)), s2))))))"

definition unwind :: "host \<Rightarrow> ctype \<Rightarrow> val \<Rightarrow> string option \<Rightarrow> interp \<Rightarrow> (exc + unit) \<times> interp" where
  "unwind H ty v l s =
     (if ty = NORMAL then
        (Inl (Native (HostError ''TypeError'' ''Should not unwind for NORMAL completions'')), s)
      else (case unwind_loop ty v l (stateStack s) of
              (Inl e, st) \<Rightarrow> (Inl e, s\<lparr>stateStack := st\<rparr>)
            | (Inr Handled, st) \<Rightarrow> (Inr (), s\<lparr>stateStack := st\<rparr>)
            | (Inr Unhandled, st) \<Rightarrow>
                (case realError H v (s\<lparr>stateStack := st\<rparr>) of (e, s1) \<Rightarrow> (Inl e, s1))))"

definition class_obj :: "interp \<Rightarrow> errclass \<Rightarrow> nat" where
  "class_obj s c = (case c of C_ERROR \<Rightarrow> ERROR s | C_TYPE_ERROR \<Rightarrow> TYPE_ERROR s
     | C_RANGE_ERROR \<Rightarrow> RANGE_ERROR s | C_REFERENCE_ERROR \<Rightarrow> REFERENCE_ERROR s)"

text \<open>
  \<open>throwException\<close>: what the calls \<open>Guest c m\<close> and \<open>GuestValue v\<close> do, and the exception
  that leaves them: the sentinel \<open>STEP_ERROR\<close> when \<open>unwind\<close> returns, the host error
  otherwise.  Any other exception passes through unchanged.
\<close>

definition throwException :: "host \<Rightarrow> exc \<Rightarrow> interp \<Rightarrow> exc \<times> interp" where
  "throwException H e s = (case e of
       Guest c m \<Rightarrow>
         (case createObject (class_obj s c) s of
            (Inl e1, s1) \<Rightarrow> (e1, s1)
          | (Inr a, s1) \<Rightarrow>
              (case setProperty H (VObj a) ''message'' (Given (VStr m))
                      (Some NONENUMERABLE_DESCRIPTOR) s1 of
                 (Inl e2, s2) \<Rightarrow> (e2, s2)
               | (Inr u, s2) \<Rightarrow>
                   (case unwind H THROW (VObj a) None s2 of
                      (Inl e3, s3) \<Rightarrow> (e3, s3)
                    | (Inr u3, s3) \<Rightarrow> (STEP_ERROR, s3))))
     | GuestValue v \<Rightarrow>
         (case unwind H THROW v None s of
            (Inl e3, s3) \<Rightarrow> (e3, s3)
          | (Inr u3, s3) \<Rightarrow> (STEP_ERROR, s3))
     | _ \<Rightarrow> (e, s))"

section \<open>Scopes\<close>

text \<open>The loop of \<open>getValueFromScope\<close>: the value found in a scope below the global one,
  or the scope at which the loop ended.\<close>

fun scope_loop :: "nat \<Rightarrow> interp \<Rightarrow> nat option \<Rightarrow> string \<Rightarrow> exc + (val + nat option)" where
  "scope_loop 0 s sc name = Inl Diverge"
| "scope_loop (Suc k) s None name = Inr (Inr None)"
| "scope_loop (Suc k) s (Some sc) name =
     (if sc = globalScope s then Inr (Inr (Some sc))
      else if has_key (properties (obj_at s (sobject (scopes s ! sc)))) name
      then Inr (Inl (native_get (properties (obj_at s (sobject (scopes s ! sc)))) name))
      else scope_loop k s (parentScope (scopes s ! sc)) name)"

definition is_typeof :: "node \<Rightarrow> bool" where
  "is_typeof n = (case n of UnaryExpression e opr x \<Rightarrow> opr = ''typeof'' | _ \<Rightarrow> False)"

definition getValueFromScope :: "host \<Rightarrow> string \<Rightarrow> interp \<Rightarrow> val res" where
  "getValueFromScope H name s = (case getScope s of
       Inl e \<Rightarrow> (Inl e, s)
     | Inr sc0 \<Rightarrow>
         (case scope_loop (length (scopes s) + 1) s (Some sc0) name of
            Inl e \<Rightarrow> (Inl e, s)
          | Inr (Inl v) \<Rightarrow> (Inr v, s)
          | Inr (Inr sc) \<Rightarrow>
              (case (if sc = Some (globalScope s)
                     then hasProperty H s (VObj (sobject (scopes s ! globalScope s))) name
                     else Inr False) of
                 Inl e \<Rightarrow> (Inl e, s)
               | Inr True \<Rightarrow> getProperty H (VObj (sobject (scopes s ! globalScope s))) name s
               | Inr False \<Rightarrow>
                   if is_typeof (fnode_of (hd (stateStack s))) then (Inr VUndef, s)
                   else (Inl (Guest C_REFERENCE_ERROR (name @ '' is not defined'')), s))))"

text \<open>\<open>createSpecialScope(parentScope)\<close> without the optional object.\<close>

definition createSpecialScope :: "nat \<Rightarrow> interp \<Rightarrow> nat res" where
  "createSpecialScope parent s = (case createObjectProto VNull s of
       (Inl e, s1) \<Rightarrow> (Inl e, s1)
     | (Inr a, s1) \<Rightarrow>
         (Inr (length (scopes s1)),
          s1\<lparr>scopes := scopes s1 @ [\<lparr>parentScope = Some parent,
                 strict = strict (scopes s1 ! parent), sobject = a\<rparr>]\<rparr>))"

section \<open>Node handlers\<close>

text \<open>
  A handler runs on a stack whose top frame is the \<open>state\<close> it is passed.  It returns the
  frame to push, if any.  An exception it ends in may still be a call of
  \<open>throwException\<close>; \<open>dispatch\<close> below carries that call out.
\<close>

type_synonym handler = "interp \<Rightarrow> (exc + frame option) \<times> interp"

definition top_frame :: "interp \<Rightarrow> frame" where
  "top_frame s = hd (stateStack s)"

definition set_top :: "(frame \<Rightarrow> frame) \<Rightarrow> interp \<Rightarrow> interp" where
  "set_top g s = s\<lparr>stateStack := g (hd (stateStack s)) # tl (stateStack s)\<rparr>"

definition pop :: "interp \<Rightarrow> interp" where
  "pop s = s\<lparr>stateStack := tl (stateStack s)\<rparr>"

text \<open>\<open>stack[stack.length - 1].value = v\<close>; on an empty stack a host TypeError.\<close>

definition put_value :: "fval \<Rightarrow> interp \<Rightarrow> (exc + frame option) \<times> interp" where
  "put_value v s = (if stateStack s = []
     then (Inl (Native (HostError ''TypeError'' ''Cannot set properties of undefined'')), s)
     else (Inr None, set_top (\<lambda>f. f\<lparr>fvalue := v\<rparr>) s))"

definition stepProgram :: handler where
  "stepProgram s = (case fnode_of (top_frame s) of
       Program e [] \<Rightarrow> (Inr None, set_top (\<lambda>f. f\<lparr>fdone := True\<rparr>) s)
     | Program e (x # xs) \<Rightarrow>
         (Inr (Some (State x (fscope (top_frame s)))),
          set_top (\<lambda>f. f\<lparr>fnode_of := Program e xs, fdone := False\<rparr>) s)
     | _ \<Rightarrow> (Inl Unmodelled, s))"

definition stepExpressionStatement :: handler where
  "stepExpressionStatement s = (case fnode_of (top_frame s) of
       ExpressionStatement e x \<Rightarrow>
         if \<not> fdone' (top_frame s) then
           (Inr (Some (State x (fscope (top_frame s)))), set_top (\<lambda>f. f\<lparr>fdone' := True\<rparr>) s)
         else (Inr None, (pop s)\<lparr>ivalue := fvalue (top_frame s)\<rparr>)
     | _ \<Rightarrow> (Inl Unmodelled, s))"

definition stepBlockStatement :: handler where
  "stepBlockStatement s = (case fnode_of (top_frame s) of
       BlockStatement e body \<Rightarrow>
         if n_idx (top_frame s) < length body then
           (Inr (Some (State (body ! n_idx (top_frame s)) (fscope (top_frame s)))),
            set_top (\<lambda>f. f\<lparr>n_idx := n_idx f + 1\<rparr>) s)
         else (Inr None, pop s)
     | _ \<Rightarrow> (Inl Unmodelled, s))"

definition stepThrowStatement :: handler where
  "stepThrowStatement s = (case fnode_of (top_frame s) of
       ThrowStatement e x \<Rightarrow>
         if \<not> fdone' (top_frame s) then
           (Inr (Some (State x (fscope (top_frame s)))), set_top (\<lambda>f. f\<lparr>fdone' := True\<rparr>) s)
         else (case fvalue (top_frame s) of
                 Val v \<Rightarrow> (Inl (GuestValue v), s)
               | _ \<Rightarrow> (Inl Unmodelled, s))
     | _ \<Rightarrow> (Inl Unmodelled, s))"

definition stepTryStatement :: "host \<Rightarrow> handler" where
  "stepTryStatement H s = (case fnode_of (top_frame s) of
       TryStatement e block handler finalizer \<Rightarrow>
         if \<not> doneBlock (top_frame s) then
           (Inr (Some (State block (fscope (top_frame s)))), set_top (\<lambda>f. f\<lparr>doneBlock := True\<rparr>) s)
         else if (case cv (top_frame s) of Some (ty, v, l) \<Rightarrow> ty = THROW | None \<Rightarrow> False)
                 \<and> \<not> doneHandler (top_frame s) \<and> handler \<noteq> None then
           (Inr (Some ((State (the handler) (fscope (top_frame s)))
                         \<lparr>throwValue := fst (snd (the (cv (top_frame s))))\<rparr>)),
            set_top (\<lambda>f. f\<lparr>doneHandler := True, cv := None\<rparr>) s)
         else if \<not> doneFinalizer (top_frame s) \<and> finalizer \<noteq> None then
           (Inr (Some (State (the finalizer) (fscope (top_frame s)))),
            set_top (\<lambda>f. f\<lparr>doneFinalizer := True\<rparr>) s)
         else (case cv (top_frame s) of
                 None \<Rightarrow> (Inr None, pop s)
               | Some (ty, v, l) \<Rightarrow>
                   (case unwind H ty v l (pop s) of
                      (Inl e1, s1) \<Rightarrow> (Inl e1, s1)
                    | (Inr u, s1) \<Rightarrow> (Inr None, s1)))
     | _ \<Rightarrow> (Inl Unmodelled, s))"

definition stepCatchClause :: "host \<Rightarrow> handler" where
  "stepCatchClause H s = (case fnode_of (top_frame s) of
       CatchClause e param body \<Rightarrow>
         if \<not> fdone' (top_frame s) then
           (case createSpecialScope (fscope (top_frame s)) (set_top (\<lambda>f. f\<lparr>fdone' := True\<rparr>) s) of
              (Inl e1, s1) \<Rightarrow> (Inl e1, s1)
            | (Inr sc, s1) \<Rightarrow>
                (case setProperty H (VObj (sobject (scopes s1 ! sc))) param
                        (Given (throwValue (top_frame s))) None s1 of
                   (Inl e2, s2) \<Rightarrow> (Inl e2, s2)
                 | (Inr u, s2) \<Rightarrow> (Inr (Some (State body sc)), s2)))
         else (Inr None, pop s)
     | _ \<Rightarrow> (Inl Unmodelled, s))"

text \<open>\<open>stepWhileStatement\<close> is the function \<open>stepDoWhileStatement\<close>; its first test, for a
  \<open>do ... while\<close>, is false on a \<open>WhileStatement\<close>.  \<open>!state.value\<close> is false on a reference.\<close>

definition stepWhileStatement :: handler where
  "stepWhileStatement s = (case fnode_of (top_frame s) of
       WhileStatement e tst body \<Rightarrow>
         if \<not> ftest (top_frame s) then
           (Inr (Some (State tst (fscope (top_frame s)))), set_top (\<lambda>f. f\<lparr>ftest := True\<rparr>) s)
         else if \<not> (case fvalue (top_frame s) of Val v \<Rightarrow> truthy v | _ \<Rightarrow> True) then
           (Inr None, pop s)
         else (Inr (Some (State body (fscope (top_frame s)))),
               set_top (\<lambda>f. f\<lparr>ftest := False, isLoop := True\<rparr>) s)
     | _ \<Rightarrow> (Inl Unmodelled, s))"

text \<open>A literal regular expression is not embedded: \<open>Literal\<close> holds a guest value.\<close>

definition stepLiteral :: handler where
  "stepLiteral s = (case fnode_of (top_frame s) of
       Literal e v \<Rightarrow> put_value (Val v) (pop s)
     | _ \<Rightarrow> (Inl Unmodelled, s))"

text \<open>
  When the lookup flags a getter, the source goes on with
  \<open>while (!this.hasProperty(scope, node['name']))\<close> on \<open>state.scope\<close>, which is a scope and
  not a guest object: \<open>hasProperty\<close> throws its host TypeError.
\<close>

definition stepIdentifier :: "host \<Rightarrow> handler" where
  "stepIdentifier H s = (case fnode_of (top_frame s) of
       Identifier e name \<Rightarrow>
         if components (top_frame s) then put_value (ScopeRef name) (pop s)
         else (case getValueFromScope H name (pop s) of
                 (Inl e1, s1) \<Rightarrow> (Inl e1, s1)
               | (Inr v, s1) \<Rightarrow>
                   if getterStep s1 then
                     (Inl (Native (HostError ''TypeError''
                             ''Primitive data type has no properties'')), s1)
                   else put_value (Val v) s1)
     | _ \<Rightarrow> (Inl Unmodelled, s))"

text \<open>Unary operators.\<close>

fun num_neg :: "num \<Rightarrow> num" where
  "num_neg NaN = NaN"
| "num_neg PInf = NInf"
| "num_neg NInf = PInf"
| "num_neg (Fin q) = Fin (- q)"

definition to_int32 :: "num \<Rightarrow> int" where
  "to_int32 n = (if 2 ^ 31 \<le> int (to_uint32 n) then int (to_uint32 n) - 2 ^ 32
                 else int (to_uint32 n))"

definition type_of :: "interp \<Rightarrow> val \<Rightarrow> string" where
  "type_of s v = (case v of
       VUndef \<Rightarrow> ''undefined''
     | VNull \<Rightarrow> ''object''
     | VBool b \<Rightarrow> ''boolean''
     | VNum n \<Rightarrow> ''number''
     | VStr t \<Rightarrow> ''string''
     | VObj a \<Rightarrow> if cls (obj_at s a) = ''Function'' then ''function'' else ''object'')"

text \<open>
  \<open>delete obj.properties[name]\<close> inside \<open>try\<close>: \<open>None\<close> when the host throws, which it
  does for a property that is not configurable and whenever \<open>obj\<close> has no \<open>properties\<close>
  (a primitive, \<open>null\<close>, or the scope that stands in for a scope reference).
\<close>

definition delete_ref :: "host \<Rightarrow> fval \<Rightarrow> interp \<Rightarrow> interp option" where
  "delete_ref H r s = (case r of
       PropRef (VObj a) k \<Rightarrow>
         (case native_delete (properties (obj_at s a)) (to_string H (heap s) k) of
            None \<Rightarrow> None
          | Some ps \<Rightarrow> Some (upd_props a ps s))
     | _ \<Rightarrow> None)"

definition ref_text :: "host \<Rightarrow> interp \<Rightarrow> fval \<Rightarrow> string \<times> string" where
  "ref_text H s r = (case r of
       PropRef ob k \<Rightarrow> (to_string H (heap s) k, to_string H (heap s) ob)
     | ScopeRef n \<Rightarrow> (n, ''[object Object]'')
     | Val v \<Rightarrow> ([], []))"

definition stepUnaryExpression :: "host \<Rightarrow> handler" where
  "stepUnaryExpression H s = (case fnode_of (top_frame s) of
       UnaryExpression e opr x \<Rightarrow>
         if \<not> fdone' (top_frame s) then
           (Inr (Some ((State x (fscope (top_frame s)))\<lparr>components := (opr = ''delete'')\<rparr>)),
            set_top (\<lambda>f. f\<lparr>fdone' := True\<rparr>) s)
         else if opr = ''delete'' then
           (case fvalue (top_frame s) of
              Val v \<Rightarrow> put_value (Val (VBool True)) (pop s)
            | r \<Rightarrow> (case delete_ref H r (pop s) of
                       Some s1 \<Rightarrow> put_value (Val (VBool True)) s1
                     | None \<Rightarrow>
                         if strict (scopes s ! fscope (top_frame s)) then
                           (Inl (Guest C_TYPE_ERROR (''Cannot delete property '' @ apostrophe
                              @ fst (ref_text H s r) @ apostrophe @ '' of '' @ apostrophe
                              @ snd (ref_text H s r) @ apostrophe)), pop s)
                         else put_value (Val (VBool False)) (pop s)))
         else (case fvalue (top_frame s) of
                 Val v \<Rightarrow>
                   if opr = ''-'' then
                     put_value (Val (VNum (num_neg (to_number H (heap s) v)))) (pop s)
                   else if opr = ''+'' then
                     put_value (Val (VNum (to_number H (heap s) v))) (pop s)
                   else if opr = ''!'' then put_value (Val (VBool (\<not> truthy v))) (pop s)
                   else if opr = ''~'' then
                     put_value (Val (VNum (Fin (of_int (- to_int32 (to_number H (heap s) v) - 1)))))
                       (pop s)
                   else if opr = ''typeof'' then put_value (Val (VStr (type_of s v))) (pop s)
                   else if opr = ''void'' then put_value (Val VUndef) (pop s)
                   else (Inl (Native (HostError ''SyntaxError''
                                (''Unknown unary operator: '' @ opr))), pop s)
               | _ \<Rightarrow> (Inl Unmodelled, s))
     | _ \<Rightarrow> (Inl Unmodelled, s))"

text \<open>
  Calls.  \<open>doneCallee\<close> is 0 while absent; \<open>createGetter_\<close> sets it to \<open>true\<close>, which the
  handler treats as it treats 2.  Calling a guest function (which needs \<open>createScope\<close>
  and \<open>populateScope_\<close>) and \<open>eval\<close> are not embedded.  A host function is taken not to
  touch the state stack.
\<close>

definition createGetter :: "val \<Rightarrow> val \<Rightarrow> interp \<Rightarrow> (exc + frame option) \<times> interp" where
  "createGetter f this s =
     (if \<not> getterStep s then
        (Inl (Native (HostError ''Error'' ''Unexpected call to createGetter'')), s)
      else (Inr (Some ((State (CallExpression 0 (OtherNode 0 []) []) (fscope (top_frame s)))
                   \<lparr>doneCallee := 2, funcThis := this, func := f, doneArgs := True,
                    arguments := []\<rparr>)),
            s\<lparr>getterStep := False\<rparr>))"

text \<open>The part \<open>if (state.doneCallee_ === 1)\<close>: it returns a frame to push or an
  exception (\<open>Inl\<close>), or falls through (\<open>Inr\<close>).\<close>

definition call_resolve :: "host \<Rightarrow> interp \<Rightarrow> ((exc + frame option) \<times> interp) + interp" where
  "call_resolve H s =
     (if doneCallee (top_frame s) \<noteq> 1 then Inr s
      else let s1 = set_top (\<lambda>f. f\<lparr>doneCallee := 2\<rparr>) s in
        (case fvalue (top_frame s) of
           Val f \<Rightarrow> Inr (set_top (\<lambda>g. g\<lparr>func := f, arguments := [], n_idx := 0\<rparr>) s1)
         | ScopeRef n \<Rightarrow>
             (case getValueFromScope H n s1 of
                (Inl e, s2) \<Rightarrow> Inl (Inl e, s2)
              | (Inr f, s2) \<Rightarrow>
                  if getterStep s2 then Inl (Inl Unmodelled, s2)
                  else Inr (set_top (\<lambda>g. g\<lparr>func := f, directEval := (n = ''eval''),
                                           arguments := [], n_idx := 0\<rparr>) s2))
         | PropRef ob k \<Rightarrow>
             (case getProperty H ob (to_string H (heap s1) k) s1 of
                (Inl e, s2) \<Rightarrow> Inl (Inl e, s2)
              | (Inr f, s2) \<Rightarrow>
                  if getterStep s2 then
                    Inl (createGetter f ob
                           (set_top (\<lambda>g. g\<lparr>func := f, funcThis := ob, doneCallee := 1\<rparr>) s2))
                  else Inr (set_top (\<lambda>g. g\<lparr>func := f, funcThis := ob,
                                           arguments := [], n_idx := 0\<rparr>) s2))))"

text \<open>The part \<open>if (!state.doneArgs_)\<close>.\<close>

definition new_this :: "host \<Rightarrow> interp \<Rightarrow> ((exc + frame option) \<times> interp) + interp" where
  "new_this H s = (case func (top_frame s) of
       VObj a \<Rightarrow>
         if illegalConstructor (obj_at s a) then
           Inl (Inl (Guest C_TYPE_ERROR (to_string H (heap s) (VObj a) @ '' is not a constructor'')), s)
         else (case (if a = ARRAY s then createArray H s
                     else (case native_get (properties (obj_at s a)) ''prototype'' of
                             VObj p \<Rightarrow> createObjectProto (VObj p) s
                           | _ \<Rightarrow> createObjectProto (VObj (OBJECT_PROTO s)) s)) of
                 (Inl e, s1) \<Rightarrow> Inl (Inl e, s1)
               | (Inr this, s1) \<Rightarrow>
                   Inr (set_top (\<lambda>g. g\<lparr>funcThis := VObj this, isConstructor := True\<rparr>) s1))
     | _ \<Rightarrow> Inl (Inl (Native (HostError ''TypeError'' ''Cannot read properties'')), s))"

definition call_args :: "host \<Rightarrow> node list \<Rightarrow> bool \<Rightarrow> interp
    \<Rightarrow> ((exc + frame option) \<times> interp) + interp" where
  "call_args H args is_new s =
     (if doneArgs (top_frame s) then Inr s
      else if n_idx (top_frame s) \<noteq> 0 \<and> (case fvalue (top_frame s) of Val v \<Rightarrow> False | _ \<Rightarrow> True) then
        Inl (Inl Unmodelled, s)
      else let s1 = (if n_idx (top_frame s) \<noteq> 0
                     then set_top (\<lambda>g. g\<lparr>arguments := arguments g
                            @ [case fvalue g of Val v \<Rightarrow> v | _ \<Rightarrow> VUndef]\<rparr>) s
                     else s) in
        if n_idx (top_frame s1) < length args then
          Inl (Inr (Some (State (args ! n_idx (top_frame s1)) (fscope (top_frame s1)))),
               set_top (\<lambda>g. g\<lparr>n_idx := n_idx g + 1\<rparr>) s1)
        else (case (if is_new then new_this H s1
                    else if funcThis (top_frame s1) = VUndef then
                      Inr (set_top (\<lambda>g. g\<lparr>funcThis :=
                             (if strict (scopes s1 ! fscope (top_frame s1)) then VUndef
                              else VObj (globalObject s1))\<rparr>) s1)
                    else Inr s1) of
                Inl r \<Rightarrow> Inl r
              | Inr s2 \<Rightarrow> Inr (set_top (\<lambda>g. g\<lparr>doneArgs := True\<rparr>) s2)))"

text \<open>The rest: run the function, or hand its result to the parent frame.\<close>

definition call_exec :: "host \<Rightarrow> handler" where
  "call_exec H s =
     (if \<not> doneExec (top_frame s) then
        (let s1 = set_top (\<lambda>g. g\<lparr>doneExec := True\<rparr>) s in
         case func (top_frame s1) of
           VObj a \<Rightarrow>
             if fnode (obj_at s1 a) \<noteq> None then (Inl Unmodelled, s1)
             else if evalf (obj_at s1 a) then (Inl Unmodelled, s1)
             else (case nativeFunc (obj_at s1 a) of
                 Some i \<Rightarrow>
                   (case native_call H i (funcThis (top_frame s1)) (arguments (top_frame s1))
                           (s1\<lparr>native_log := native_log s1 @ [(i, arguments (top_frame s1))]\<rparr>) of
                      (Inl e, s2) \<Rightarrow> (Inl e, s2\<lparr>stateStack := stateStack s1\<rparr>)
                    | (Inr v, s2) \<Rightarrow>
                        (Inr None, set_top (\<lambda>g. g\<lparr>fvalue := Val v\<rparr>)
                                     (s2\<lparr>stateStack := stateStack s1\<rparr>)))
               | None \<Rightarrow>
                   (case asyncFunc (obj_at s1 a) of
                      Some i \<Rightarrow>
                        (let s2 = s1\<lparr>paused := True,
                                     native_log := native_log s1 @ [(i, arguments (top_frame s1))]\<rparr> in
                         case async_call H i (funcThis (top_frame s1)) (arguments (top_frame s1)) of
                           None \<Rightarrow> (Inr None, s2)
                         | Some v \<Rightarrow>
                             (Inr None, (set_top (\<lambda>g. g\<lparr>fvalue := Val v\<rparr>) s2)\<lparr>paused := False\<rparr>))
                    | None \<Rightarrow>
                        (Inl (Guest C_TYPE_ERROR (cls (obj_at s1 a) @ '' is not callable'')), s1)))
         | f \<Rightarrow> (Inl (Guest C_TYPE_ERROR (to_string H (heap s1) f @ '' is not a function'')), s1))
      else put_value
             (if isConstructor (top_frame s)
                 \<and> (case fvalue (top_frame s) of Val (VObj a) \<Rightarrow> False | Val VNull \<Rightarrow> False | _ \<Rightarrow> True)
              then Val (funcThis (top_frame s)) else fvalue (top_frame s))
             (pop s))"

definition stepCallExpression :: "host \<Rightarrow> handler" where
  "stepCallExpression H s =
     (case (case fnode_of (top_frame s) of
              CallExpression e c as \<Rightarrow> Some (c, as, False)
            | NewExpression e c as \<Rightarrow> Some (c, as, True)
            | _ \<Rightarrow> None) of
        None \<Rightarrow> (Inl Unmodelled, s)
      | Some (callee, args, is_new) \<Rightarrow>
          if doneCallee (top_frame s) = 0 then
            (Inr (Some ((State callee (fscope (top_frame s)))\<lparr>components := True\<rparr>)),
             set_top (\<lambda>g. g\<lparr>doneCallee := 1\<rparr>) s)
          else (case call_resolve H s of
                  Inl r \<Rightarrow> r
                | Inr s1 \<Rightarrow>
                    (case call_args H args is_new s1 of
                       Inl r \<Rightarrow> r
                     | Inr s2 \<Rightarrow> call_exec H s2)))"

section \<open>The step machine\<close>

text \<open>\<open>this.stepFunctions_[type](stack, state, node)\<close> for the handlers embedded here,
  with the calls of \<open>throwException\<close> they end in carried out.\<close>

definition handlers :: "host \<Rightarrow> handler" where
  "handlers H s = (case fnode_of (top_frame s) of
       Program e b \<Rightarrow> stepProgram s
     | ExpressionStatement e x \<Rightarrow> stepExpressionStatement s
     | BlockStatement e b \<Rightarrow> stepBlockStatement s
     | ThrowStatement e x \<Rightarrow> stepThrowStatement s
     | TryStatement e b h f \<Rightarrow> stepTryStatement H s
     | CatchClause e p b \<Rightarrow> stepCatchClause H s
     | Literal e v \<Rightarrow> stepLiteral s
     | Identifier e x \<Rightarrow> stepIdentifier H s
     | UnaryExpression e opr x \<Rightarrow> stepUnaryExpression H s
     | CallExpression e c as \<Rightarrow> stepCallExpression H s
     | NewExpression e c as \<Rightarrow> stepCallExpression H s
     | WhileStatement e c b \<Rightarrow> stepWhileStatement s
     | OtherNode e ty \<Rightarrow> (Inl Unmodelled, s))"

definition dispatch :: "host \<Rightarrow> handler" where
  "dispatch H s = (case handlers H s of
       (Inl e, s1) \<Rightarrow> (case throwException H e s1 of (e1, s2) \<Rightarrow> (Inl e1, s2))
     | (Inr nx, s1) \<Rightarrow> (Inr nx, s1))"

text \<open>
  One round of the \<open>do ... while\<close> of \<open>step\<close>, for any table of handlers \<open>sf\<close>: it ends the
  call (\<open>Inl\<close>: the value returned or the exception thrown), or goes round again.
  \<open>nxt\<close> is the variable \<open>nextState\<close>, which keeps its value from the round before when
  the handler throws; pushing that frame a second time is not embedded.
\<close>

definition step_once :: "handler \<Rightarrow> frame option \<Rightarrow> interp
    \<Rightarrow> ((exc + bool) \<times> interp) + (frame option \<times> interp)" where
  "step_once sf nxt s =
     (if stateStack s = [] then Inl (Inr False, s)
      else if ntype (fnode_of (top_frame s)) = ''Program'' \<and> fdone (top_frame s) then Inl (Inr False, s)
      else if paused s then Inl (Inr True, s)
      else (case (case sf s of
                    (Inl e, s1) \<Rightarrow>
                      if e = STEP_ERROR then (if nxt = None then Inr (None, s1)
                                              else Inl (Inl Unmodelled, s1))
                      else Inl (Inl e, s1)
                  | (Inr nx, s1) \<Rightarrow> Inr (nx, s1)) of
              Inl r \<Rightarrow> Inl r
            | Inr (nx, s1) \<Rightarrow>
                let s2 = (case nx of None \<Rightarrow> s1
                          | Some f \<Rightarrow> s1\<lparr>stateStack := f # stateStack s1\<rparr>) in
                if getterStep s2 then
                  Inl (Inl (Native (HostError ''Error'' ''Getter not supported in this context'')), s2)
                else if setterStep s2 then
                  Inl (Inl (Native (HostError ''Error'' ''Setter not supported in this context'')), s2)
                else if nend (fnode_of (top_frame s)) = 0 then Inr (nx, s2)
                else Inl (Inr True, s2)))"

partial_function (option) step_loop :: "handler \<Rightarrow> frame option \<Rightarrow> interp
    \<Rightarrow> ((exc + bool) \<times> interp) option" where
  "step_loop sf nxt s = (case step_once sf nxt s of
       Inl r \<Rightarrow> Some r
     | Inr (nx, s1) \<Rightarrow> step_loop sf nx s1)"

definition step :: "handler \<Rightarrow> interp \<Rightarrow> ((exc + bool) \<times> interp) option" where
  "step sf s = step_loop sf None s"


text \<open>The callback an asynchronous host function was given, when the host calls it
  later: it was created for the frame that is on top while the interpreter is paused.\<close>

definition resume :: "val \<Rightarrow> interp \<Rightarrow> interp" where
  "resume v s = (set_top (\<lambda>g. g\<lparr>fvalue := Val v\<rparr>) s)\<lparr>paused := False\<rparr>"

section \<open>An example host and interpreter\<close>

text \<open>
  A host for the examples.  Its \<open>Number(s)\<close> reads the numeric strings of the host
  language (white space around, a sign, digits with fraction and exponent, \<open>Infinity\<close>,
  and the literals \<open>0x\<close>, \<open>0o\<close>, \<open>0b\<close>); its \<open>String(n)\<close> writes a number the way the host
  does, in positional or exponent notation.  Both work on the number as a rational: the
  rounding of a numeral to the nearest double is not embedded, only the overflow to
  \<open>Infinity\<close>, and a rational that has no finite decimal expansion (so is no double) is
  written as a fraction.  A string is a list of 8-bit characters, so of the host's
  white space only the seven characters below \<open>256\<close> occur.
\<close>

definition is_digit :: "char \<Rightarrow> bool" where
  "is_digit c = (48 \<le> (of_char c :: nat) \<and> (of_char c :: nat) \<le> 57)"

definition digits_val :: "string \<Rightarrow> nat" where
  "digits_val x = foldl (\<lambda>a c. 10 * a + ((of_char c :: nat) - 48)) 0 x"

definition is_space :: "char \<Rightarrow> bool" where
  "is_space c = ((of_char c :: nat) \<in> set [9, 10, 11, 12, 13, 32, 160])"

definition trim :: "string \<Rightarrow> string" where
  "trim x = rev (dropWhile is_space (rev (dropWhile is_space x)))"

text \<open>The value of a digit or letter in a radix up to 36; 36 for any other character.\<close>

definition digit_val :: "char \<Rightarrow> nat" where
  "digit_val c = (let n = (of_char c :: nat) in
     if 48 \<le> n \<and> n \<le> 57 then n - 48
     else if 97 \<le> n \<and> n \<le> 122 then n - 87
     else if 65 \<le> n \<and> n \<le> 90 then n - 55 else 36)"

definition radix_val :: "nat \<Rightarrow> string \<Rightarrow> nat option" where
  "radix_val b x = (if x \<noteq> [] \<and> list_all (\<lambda>c. digit_val c < b) x
     then Some (foldl (\<lambda>a c. b * a + digit_val c) 0 x) else None)"

definition pow10 :: "int \<Rightarrow> rat" where
  "pow10 e = (if 0 \<le> e then 10 ^ nat e else 1 / 10 ^ nat (- e))"

definition signed_integer :: "string \<Rightarrow> int option" where
  "signed_integer x = (case x of
       [] \<Rightarrow> None
     | c # r \<Rightarrow> if c = CHR ''+'' then map_option int (radix_val 10 r)
                else if c = CHR ''-'' then map_option (\<lambda>n. - int n) (radix_val 10 r)
                else map_option int (radix_val 10 x))"

text \<open>An unsigned decimal literal: digits, an optional fraction, an optional exponent;
  one of the two digit strings around the point may be empty.\<close>

definition unsigned_decimal :: "string \<Rightarrow> rat option" where
  "unsigned_decimal x =
     (let mant = takeWhile (\<lambda>c. c \<noteq> CHR ''e'' \<and> c \<noteq> CHR ''E'') x;
          ex = dropWhile (\<lambda>c. c \<noteq> CHR ''e'' \<and> c \<noteq> CHR ''E'') x;
          ip = takeWhile (\<lambda>c. c \<noteq> CHR ''.'') mant;
          fp = drop 1 (dropWhile (\<lambda>c. c \<noteq> CHR ''.'') mant)
      in if (ip = [] \<and> fp = []) \<or> \<not> list_all is_digit ip \<or> \<not> list_all is_digit fp then None
         else (case (if ex = [] then Some 0 else signed_integer (tl ex)) of
                 None \<Rightarrow> None
               | Some e \<Rightarrow> Some ((of_nat (digits_val ip)
                                   + of_nat (digits_val fp) / 10 ^ length fp) * pow10 e)))"

text \<open>A magnitude that rounds beyond the largest double is \<open>Infinity\<close>.\<close>

definition overflow :: "rat \<Rightarrow> num" where
  "overflow q = (if 2 ^ 1024 - 2 ^ 970 \<le> q then PInf
                 else if q \<le> - (2 ^ 1024 - 2 ^ 970) then NInf else Fin q)"

definition str_decimal :: "string \<Rightarrow> num" where
  "str_decimal x = (let neg = (x \<noteq> [] \<and> hd x = CHR ''-'');
       u = (if x \<noteq> [] \<and> (hd x = CHR ''+'' \<or> hd x = CHR ''-'') then tl x else x)
     in if u = ''Infinity'' then (if neg then NInf else PInf)
        else (case unsigned_decimal u of
                None \<Rightarrow> NaN
              | Some q \<Rightarrow> overflow (if neg then - q else q)))"

definition str_to_num0 :: "string \<Rightarrow> num" where
  "str_to_num0 x = (let t = trim x in
     if t = [] then Fin 0
     else if list_all is_digit t then overflow (of_nat (digits_val t))
     else if take 2 t = ''0x'' \<or> take 2 t = ''0X'' then
       (case radix_val 16 (drop 2 t) of None \<Rightarrow> NaN | Some n \<Rightarrow> overflow (of_nat n))
     else if take 2 t = ''0o'' \<or> take 2 t = ''0O'' then
       (case radix_val 8 (drop 2 t) of None \<Rightarrow> NaN | Some n \<Rightarrow> overflow (of_nat n))
     else if take 2 t = ''0b'' \<or> take 2 t = ''0B'' then
       (case radix_val 2 (drop 2 t) of None \<Rightarrow> NaN | Some n \<Rightarrow> overflow (of_nat n))
     else str_decimal t)"

text \<open>
  \<open>String(n)\<close>: with \<open>s\<close> the digits of the number without trailing zeros, \<open>k\<close> their count
  and \<open>n\<close> the position of the decimal point, the host writes the digits padded with
  zeros, or with a point inside, or after \<open>0.\<close> and zeros, or in exponent notation.
\<close>

fun dec_shift :: "nat \<Rightarrow> nat \<Rightarrow> rat \<Rightarrow> nat option" where
  "dec_shift 0 e q = None"
| "dec_shift (Suc k) e q = (if snd (quotient_of (q * 10 ^ e)) = 1 then Some e
                            else dec_shift k (Suc e) q)"

fun strip_zeros :: "nat \<Rightarrow> int \<Rightarrow> nat \<times> int" where
  "strip_zeros n e = (if n \<noteq> 0 \<and> n mod 10 = 0 then strip_zeros (n div 10) (e - 1) else (n, e))"

definition exponent_text :: "int \<Rightarrow> string" where
  "exponent_text n = ''e'' @ (if 0 \<le> n then ''+'' else ''-'') @ dec (nat \<bar>n\<bar>)"

definition positive_text :: "rat \<Rightarrow> string" where
  "positive_text q = (case dec_shift 1100 0 q of
       None \<Rightarrow> dec (nat (fst (quotient_of q))) @ ''/'' @ dec (nat (snd (quotient_of q)))
     | Some e0 \<Rightarrow>
         (case strip_zeros (nat \<lfloor>q * 10 ^ e0\<rfloor>) (int e0) of (s, e) \<Rightarrow>
            let ds = dec s; k = int (length ds); n = k - e in
            if k \<le> n \<and> n \<le> 21 then ds @ replicate (nat (n - k)) CHR ''0''
            else if 0 < n \<and> n \<le> 21 then take (nat n) ds @ ''.'' @ drop (nat n) ds
            else if - 6 < n \<and> n \<le> 0 then ''0.'' @ replicate (nat (- n)) CHR ''0'' @ ds
            else if k = 1 then ds @ exponent_text (n - 1)
            else take 1 ds @ ''.'' @ drop 1 ds @ exponent_text (n - 1)))"

definition num_to_str0 :: "num \<Rightarrow> string" where
  "num_to_str0 n = (case n of
       NaN \<Rightarrow> ''NaN'' | PInf \<Rightarrow> ''Infinity'' | NInf \<Rightarrow> ''-Infinity''
     | Fin q \<Rightarrow> if q = 0 then ''0'' else if q < 0 then ''-'' @ positive_text (- q)
                else positive_text q)"

text \<open>\<open>String(v)\<close> and \<open>Number(v)\<close> on a primitive.\<close>

definition prim_str :: "val \<Rightarrow> string" where
  "prim_str v = (case v of VUndef \<Rightarrow> ''undefined'' | VNull \<Rightarrow> ''null''
     | VBool b \<Rightarrow> (if b then ''true'' else ''false'') | VNum n \<Rightarrow> num_to_str0 n
     | VStr s \<Rightarrow> s | VObj a \<Rightarrow> [])"

definition prim_num :: "val \<Rightarrow> num" where
  "prim_num v = (case v of VUndef \<Rightarrow> NaN | VNull \<Rightarrow> Fin 0
     | VBool b \<Rightarrow> Fin (if b then 1 else 0) | VNum n \<Rightarrow> n
     | VStr s \<Rightarrow> str_to_num0 s | VObj a \<Rightarrow> NaN)"

text \<open>
  \<open>S8Interpreter.Object.prototype.toString\<close>, which the host runs for \<open>String(o)\<close> on a
  guest object.  \<open>own_lookup\<close> is its loop \<open>do ... while ((obj = obj.proto))\<close> for \<open>name\<close> and
  \<open>message\<close>; \<open>rounds\<close> counts the rounds of \<open>for (i = 0; i < length; i++)\<close>; \<open>join\<close> is
  \<open>strs.join(',')\<close> on strings.  \<open>cycles\<close> is \<open>toStringCycles_\<close>: an array is on it while its
  elements are collected and off it again when they are joined, an error while its name
  and message are converted.  The depth of the recursion is bounded by the number of
  objects unless it never ends; where the source does not return (a cycle through two
  arrays, a length of \<open>Infinity\<close>, a prototype chain that does not end) the result here is
  the empty string, respectively no round.
\<close>

fun own_lookup :: "nat \<Rightarrow> obj list \<Rightarrow> nat \<Rightarrow> string \<Rightarrow> val" where
  "own_lookup 0 h a k = VUndef"
| "own_lookup (Suc n) h a k =
     (if has_key (properties (h ! a)) k then native_get (properties (h ! a)) k
      else (case proto (h ! a) of None \<Rightarrow> VUndef | Some p \<Rightarrow> own_lookup n h p k))"

definition rounds :: "num \<Rightarrow> nat" where
  "rounds n = (case n of Fin q \<Rightarrow> nat \<lceil>q\<rceil> | _ \<Rightarrow> 0)"

definition join :: "string list \<Rightarrow> string" where
  "join xs = (case xs of [] \<Rightarrow> [] | x # r \<Rightarrow> foldl (\<lambda>a b. a @ '','' @ b) x r)"

fun object_toString :: "nat \<Rightarrow> obj list \<Rightarrow> nat list \<Rightarrow> nat \<Rightarrow> string" where
  "object_toString 0 h cycles a = []"
| "object_toString (Suc k) h cycles a =
     (let ob = h ! a;
          str = (\<lambda>cs v. case v of VObj b \<Rightarrow> object_toString k h cs b | _ \<Rightarrow> prim_str v);
          numb = (\<lambda>v. case v of
                    VObj b \<Rightarrow> if data (h ! b) = VNull \<or> data (h ! b) = VUndef
                              then str_to_num0 (object_toString k h cycles b)
                              else prim_num (data (h ! b))
                  | _ \<Rightarrow> prim_num v)
      in if cls ob = ''Array'' then
           join (map (\<lambda>i. let v = native_get (properties ob) (dec i) in
                        if (case v of VObj b \<Rightarrow> b \<in> set (a # cycles) | _ \<Rightarrow> False) then ''...''
                        else if v = VUndef \<or> v = VNull then [] else str cycles v)
                   [0..<rounds (numb (native_get (properties ob) ''length''))])
         else if cls ob = ''Error'' then
           (if a \<in> set cycles then ''[object Error]''
            else let name = own_lookup (length h + 1) h a ''name'';
                     message = own_lookup (length h + 1) h a ''message'';
                     name1 = (if truthy name then str (a # cycles) name else prim_str name);
                     message1 = (if truthy message then str (a # cycles) message else [])
                 in if truthy message \<and> message1 \<noteq> [] then name1 @ '': '' @ message1 else name1)
         else if data ob \<noteq> VNull then prim_str (data ob)
         else ''[object '' @ cls ob @ '']'')"

definition obj_to_str0 :: "obj list \<Rightarrow> nat \<Rightarrow> string" where
  "obj_to_str0 h a = object_toString (length h + 1) h [] a"

text \<open>\<open>Number(o)\<close> on a guest object: the host takes \<open>o.valueOf()\<close>, which is the boxed
  primitive if there is one and the object itself otherwise, and then \<open>o.toString()\<close>.\<close>

definition obj_to_num0 :: "obj list \<Rightarrow> nat \<Rightarrow> num" where
  "obj_to_num0 h a = (if data (h ! a) = VNull \<or> data (h ! a) = VUndef
     then str_to_num0 (obj_to_str0 h a) else prim_num (data (h ! a)))"

text \<open>The own properties of the host's \<open>Object.prototype\<close> are the keys every host object
  literal inherits.  Host functions return \<open>undefined\<close>; asynchronous ones defer their
  callback.\<close>

definition H0 :: host where
  "H0 = \<lparr> str_to_num = str_to_num0, num_to_str = num_to_str0,
     obj_to_num = obj_to_num0, obj_to_str = obj_to_str0,
     host_key = (\<lambda>k. k \<in> set [''constructor'', ''__defineGetter__'', ''__defineSetter__'',
        ''hasOwnProperty'', ''__lookupGetter__'', ''__lookupSetter__'', ''isPrototypeOf'',
        ''propertyIsEnumerable'', ''toString'', ''valueOf'', ''__proto__'', ''toLocaleString'']),
     native_call = (\<lambda>i this args s. (Inr VUndef, s)),
     async_call = (\<lambda>i this args. None) \<rparr>"

text \<open>Property entries: as created by assignment, and as created with
  \<open>NONENUMERABLE_DESCRIPTOR\<close>.\<close>

definition plain :: "val \<Rightarrow> pdesc" where
  "plain v = \<lparr>pvalue = v, writable = True, enumerable = True, configurable = True\<rparr>"

definition hidden :: "val \<Rightarrow> pdesc" where
  "hidden v = \<lparr>pvalue = v, writable = True, enumerable = False, configurable = True\<rparr>"

definition constructor_obj :: "nat \<Rightarrow> obj" where
  "constructor_obj p = (new_Object (Some 2))\<lparr>cls := ''Function'',
     properties := [(''prototype'', hidden (VObj p))]\<rparr>"

definition prototype_obj :: "nat \<Rightarrow> nat \<Rightarrow> obj" where
  "prototype_obj parent c = (new_Object (Some parent))\<lparr>
     properties := [(''constructor'', hidden (VObj c))]\<rparr>"

definition error_proto :: "nat \<Rightarrow> nat \<Rightarrow> string \<Rightarrow> obj" where
  "error_proto parent c name = (new_Object (Some parent))\<lparr>cls := ''Error'',
     properties := [(''constructor'', hidden (VObj c)), (''name'', hidden (VStr name))]\<rparr>"

text \<open>
  The heap of a small interpreter, laid out as \<open>initGlobal\<close> builds it: the global object
  (0), \<open>Object.prototype\<close> (1), \<open>Function.prototype\<close> (2), and each constructor followed by
  its prototype: Array (3, 4), String (5, 6), Number (7, 8), Boolean (9, 10), Date
  (11, 12), RegExp (13, 14), Error (15, 16), TypeError (17, 18), RangeError (19, 20),
  ReferenceError (21, 22); then the host function \<open>setVal\<close> (23), a global.  The global
  object also has the accessor property \<open>answer\<close>, whose getter is that host function.
\<close>

definition heap0 :: "obj list" where
  "heap0 = [
     (new_Object (Some 1))\<lparr>properties := [(''setVal'', plain (VObj 23)),
        (''answer'', \<lparr>pvalue = VUndef, writable = False, enumerable = True,
                       configurable = True\<rparr>)],
        getter := [(''answer'', VObj 23)]\<rparr>,
     (new_Object None)\<lparr>properties := [(''constructor'', hidden (VObj 1))]\<rparr>,
     (new_Object (Some 1))\<lparr>cls := ''Function''\<rparr>,
     constructor_obj 4, prototype_obj 1 3,
     constructor_obj 6, prototype_obj 1 5,
     constructor_obj 8, prototype_obj 1 7,
     constructor_obj 10, prototype_obj 1 9,
     constructor_obj 12, prototype_obj 1 11,
     constructor_obj 14, prototype_obj 1 13,
     constructor_obj 16,
     (new_Object (Some 1))\<lparr>cls := ''Error'', properties := [(''constructor'', hidden (VObj 15)),
        (''message'', hidden (VStr [])), (''name'', hidden (VStr ''Error''))]\<rparr>,
     constructor_obj 18, error_proto 16 17 ''TypeError'',
     constructor_obj 20, error_proto 16 19 ''RangeError'',
     constructor_obj 22, error_proto 16 21 ''ReferenceError'',
     (new_Object (Some 2))\<lparr>cls := ''Function'', illegalConstructor := True,
        nativeFunc := Some 0\<rparr>]"

text \<open>
  An interpreter over that heap followed by the objects \<open>obs\<close> (objects 24, 25, ...),
  with the state stack \<open>fs\<close> and the global scope (scope 0) as its only scope, strict or
  sloppy as \<open>sm\<close> says.
\<close>

definition world :: "bool \<Rightarrow> frame list \<Rightarrow> obj list \<Rightarrow> interp" where
  "world sm fs obs = \<lparr> heap = heap0 @ obs,
     scopes = [\<lparr>parentScope = None, strict = sm, sobject = 0\<rparr>],
     stateStack = fs, paused = False, getterStep = False, setterStep = False,
     ivalue = Val VUndef, globalScope = 0, globalObject = 0, OBJECT_PROTO = 1,
     ARRAY_PROTO = 4, ARRAY = 3, STRING = 5, NUMBER = 7, BOOLEAN = 9, DATE = 11,
     REGEXP = 13, ERROR = 15, TYPE_ERROR = 17, RANGE_ERROR = 19, REFERENCE_ERROR = 21,
     native_log = [] \<rparr>"

section \<open>Well-formed states\<close>

text \<open>
  The prototype chain of object \<open>a\<close> ends: following \<open>proto\<close> from \<open>a\<close> reaches an object
  without prototype.  A chain that ends visits each object at most once, so it has at
  most as many objects as the heap.
\<close>

fun chain_within :: "nat \<Rightarrow> interp \<Rightarrow> nat \<Rightarrow> bool" where
  "chain_within 0 s a = False"
| "chain_within (Suc k) s a = (case proto (obj_at s a) of None \<Rightarrow> True | Some p \<Rightarrow> chain_within k s p)"

definition finite_chain :: "interp \<Rightarrow> nat \<Rightarrow> bool" where
  "finite_chain s a = chain_within (length (heap s)) s a"

text \<open>The descriptor does not name both an accessor and a value or \<open>writable\<close>.\<close>

definition desc_ok :: "descriptor option \<Rightarrow> bool" where
  "desc_ok desc = (case desc of None \<Rightarrow> True
     | Some d \<Rightarrow> \<not> ((d_get d \<noteq> None \<or> d_set d \<noteq> None) \<and> (d_value d \<noteq> None \<or> d_writable d \<noteq> None)))"

section \<open>Example objects\<close>

definition frozen_obj :: obj where
  "frozen_obj = (new_Object (Some 1))\<lparr>preventExtensions := True,
     properties := [(''x'', plain (VNum (Fin 1)))]\<rparr>"

definition frozen_arr :: obj where
  "frozen_arr = (new_Object (Some 4))\<lparr>cls := ''Array'', preventExtensions := True,
     properties := [(''length'', \<lparr>pvalue = VNum (Fin 1), writable = True, enumerable = False, configurable = False\<rparr>),
                    (''0'', plain (VStr ''a''))]\<rparr>"

definition getter_stack :: "frame list" where
  "getter_stack =
     [State (Identifier 14 ''answer'') 0,
      (State (ExpressionStatement 15 (Identifier 14 ''answer'')) 0)\<lparr>fdone' := True\<rparr>,
      (State (BlockStatement 17 [ExpressionStatement 15 (Identifier 14 ''answer'')]) 0)\<lparr>n_idx := 1\<rparr>,
      (State (TryStatement 30 (BlockStatement 17 [ExpressionStatement 15 (Identifier 14 ''answer'')])
                (Some (CatchClause 30 ''e'' (BlockStatement 30 []))) None) 0)\<lparr>doneBlock := True\<rparr>,
      State (Program 30 []) 0]"

text \<open>\<open>step\<close> has no more work: the stack is empty, or its top frame is a \<open>Program\<close> frame
  marked done.  (The engine marks the root frame done only while it is the top frame.)\<close>

definition finished :: "interp \<Rightarrow> bool" where
  "finished s = (stateStack s = []
      \<or> (ntype (fnode_of (top_frame s)) = ''Program'' \<and> fdone (top_frame s)))"

text \<open>\<open>reach sf s t\<close>: rounds of the loop of \<open>step\<close>, started in \<open>s\<close>, lead to \<open>t\<close>.\<close>

inductive reach :: "handler \<Rightarrow> interp \<Rightarrow> interp \<Rightarrow> bool" for sf :: handler and s :: interp where
  start: "reach sf s s"
| again: "reach sf s t \<Longrightarrow> step_once sf nxt t = Inr (nx, t') \<Longrightarrow> reach sf s t'"
| leave: "reach sf s t \<Longrightarrow> step_once sf nxt t = Inl (r, t') \<Longrightarrow> reach sf s t'"

text \<open>An asynchronous host function (object 24), a stack on which the call
  \<open>later()\<close> of it is about to run, and the program \<open>42;\<close>.\<close>

definition async_fn :: obj where
  "async_fn = (new_Object (Some 2))\<lparr>cls := ''Function'', asyncFunc := Some 1\<rparr>"

definition call_stack :: "frame list" where
  "call_stack =
     [(State (CallExpression 20 (Identifier 12 ''later'') []) 0)\<lparr>doneCallee := 2,
         func := VObj 24, funcThis := VObj 0, doneArgs := True\<rparr>,
      (State (ExpressionStatement 21 (CallExpression 20 (Identifier 12 ''later'') [])) 0)
         \<lparr>fdone' := True\<rparr>,
      State (Program 21 []) 0]"


text \<open>The interpreter once the asynchronous call on top of \<open>call_stack\<close> has started.\<close>

definition paused_world :: interp where
  "paused_world = (world False ((hd call_stack)\<lparr>doneExec := True\<rparr> # tl call_stack) [async_fn])
                    \<lparr>paused := True, native_log := [(Suc 0, [])]\<rparr>"






text \<open>
  The scopes that \<open>getValueFromScope\<close> searches before the global scope, starting from
  scope \<open>sc\<close>: the chain of \<open>parentScope\<close> up to the global scope, or up to a scope without
  parent.  \<open>None\<close> when the chain does not end within \<open>k\<close> scopes.
\<close>

fun scopes_below :: "nat \<Rightarrow> interp \<Rightarrow> nat option \<Rightarrow> nat list option" where
  "scopes_below 0 s sc = None"
| "scopes_below (Suc k) s None = Some []"
| "scopes_below (Suc k) s (Some sc) =
     (if sc = globalScope s then Some []
      else map_option ((#) sc) (scopes_below k s (parentScope (scopes s ! sc))))"

text \<open>An interpreter as \<open>world\<close>, with a function scope (scope 1, its object is object 24,
  holding the variable \<open>x\<close>) below the global scope.\<close>

definition scope_obj :: obj where
  "scope_obj = (new_Object None)\<lparr>properties := [(''x'', plain (VNum (Fin 7)))]\<rparr>"

definition inner_world :: "frame list \<Rightarrow> interp" where
  "inner_world fs = (world False fs [scope_obj])\<lparr>scopes :=
     [\<lparr>parentScope = None, strict = False, sobject = 0\<rparr>,
      \<lparr>parentScope = Some 0, strict = False, sobject = 24\<rparr>]\<rparr>"

definition typeof_stack :: "frame list" where
  "typeof_stack =
     [State (Identifier 11 ''nope'') (Suc 0),
      (State (UnaryExpression 11 ''typeof'' (Identifier 11 ''nope'')) (Suc 0))\<lparr>fdone' := True\<rparr>,
      (State (ExpressionStatement 12 (UnaryExpression 11 ''typeof'' (Identifier 11 ''nope''))) (Suc 0))
         \<lparr>fdone' := True\<rparr>,
      State (Program 12 []) 0]"

definition nope_stack :: "frame list" where
  "nope_stack =
     [State (Identifier 4 ''nope'') (Suc 0),
      (State (ExpressionStatement 5 (Identifier 4 ''nope'')) (Suc 0))\<lparr>fdone' := True\<rparr>,
      State (Program 5 []) 0]"

text \<open>
  An asynchronous suspension is pending: \<open>paused_\<close> is set, the frame on top of the stack
  is a call that has run its function, the function is an asynchronous host function,
  its invocation is the last one recorded, and it has not called its callback.
\<close>

definition async_pending :: "host \<Rightarrow> interp \<Rightarrow> bool" where
  "async_pending H s = (paused s \<and> stateStack s \<noteq> [] \<and> doneExec (top_frame s)
     \<and> (case func (top_frame s) of
          VObj a \<Rightarrow>
            (case asyncFunc (obj_at s a) of
               Some i \<Rightarrow> nativeFunc (obj_at s a) = None
                 \<and> native_log s \<noteq> []
                 \<and> last (native_log s) = (i, arguments (top_frame s))
                 \<and> async_call H i (funcThis (top_frame s)) (arguments (top_frame s)) = None
             | None \<Rightarrow> False)
        | _ \<Rightarrow> False))"





section \<open>Basic facts\<close>

lemma isa_loop_step:
  "0 < n \<Longrightarrow> isa_loop n s c p =
     (if \<not> truthy c then Inr False else if strict_eq c p then Inr True
      else isa_loop (n - 1) s (proto_field s c) p)"
  by (cases n) simp_all

declare isa_loop.simps [simp del]

lemma has_loop_step:
  "0 < n \<Longrightarrow> has_loop n s v name =
     (if own_has s v name then Inr True
      else if truthy (getPrototype s v) then has_loop (n - 1) s (getPrototype s v) name
      else Inr False)"
  by (cases n) simp_all

declare has_loop.simps [simp del]

lemma get_loop_step:
  "0 < n \<Longrightarrow> get_loop n s v name =
     (if own_has s v name then
        (case v of
           VObj a \<Rightarrow>
             if truthy (map_get (getter (obj_at s a)) name)
             then Inr (map_get (getter (obj_at s a)) name, True)
             else Inr (native_get (properties (obj_at s a)) name, False)
         | _ \<Rightarrow> Inr (VUndef, False))
      else if truthy (getPrototype s v) then get_loop (n - 1) s (getPrototype s v) name
      else Inr (VUndef, False))"
  by (cases n) simp_all

declare get_loop.simps [simp del]

lemma def_loop_step:
  "0 < n \<Longrightarrow> def_loop n s a0 a name =
     (if has_key (properties (obj_at s a)) name then Inr a
      else (case proto (obj_at s a) of
              None \<Rightarrow> Inr a0
            | Some p \<Rightarrow> def_loop (n - 1) s a0 p name))"
  by (cases n) (auto split: option.splits)

declare def_loop.simps [simp del]

lemma def_loop_own:
  "has_key (properties (obj_at s a)) name \<Longrightarrow> def_loop (chain_fuel s) s a0 a name = Inr a"
  by (simp add: def_loop_step chain_fuel_def)

lemma scope_loop_step:
  "0 < n \<Longrightarrow> scope_loop n s sc name = (case sc of
       None \<Rightarrow> Inr (Inr None)
     | Some c \<Rightarrow>
         if c = globalScope s then Inr (Inr (Some c))
         else if has_key (properties (obj_at s (sobject (scopes s ! c)))) name
         then Inr (Inl (native_get (properties (obj_at s (sobject (scopes s ! c)))) name))
         else scope_loop (n - 1) s (parentScope (scopes s ! c)) name)"
  by (cases n; cases sc) auto

declare scope_loop.simps [simp del]

lemma isa_loop_null: "isa_loop (Suc n) s VNull p = Inr False"
  by (simp add: isa_loop_step)

lemma isa_loop_ends:
  "chain_within k s a \<Longrightarrow> k \<le> n \<Longrightarrow> \<exists>b. isa_loop (Suc n) s (VObj a) p = Inr b"
proof (induction k s a arbitrary: n rule: chain_within.induct)
  case (1 s a)
  then show ?case by simp
next
  case (2 k s a)
  then obtain m where n: "n = Suc m" and km: "k \<le> m" by (cases n) auto
  have u: "isa_loop (Suc n) s (VObj a) p = (if strict_eq (VObj a) p then Inr True
      else isa_loop (Suc m) s (proto_field s (VObj a)) p)"
    by (simp add: isa_loop_step n)
  show ?case
  proof (cases "proto (obj_at s a)")
    case None
    then show ?thesis by (auto simp add: u proto_field_def isa_loop_null)
  next
    case (Some q)
    with 2 km have "\<exists>b. isa_loop (Suc m) s (VObj q) p = Inr b" by simp
    with Some show ?thesis by (auto simp add: u proto_field_def)
  qed
qed

lemma isa_obj_returns:
  assumes "finite_chain s a"
  shows "\<exists>b. isa s (VObj a) c = Inr b"
proof (cases "proto (obj_at s a)")
  case None
  have "isa_loop (chain_fuel s) s VNull (native_get (properties (obj_at s c)) ''prototype'') = Inr False"
    by (simp add: chain_fuel_def isa_loop_step)
  then show ?thesis using None by (auto simp add: isa_def getPrototype_def Let_def)
next
  case (Some q)
  from assms Some obtain k where k: "length (heap s) = Suc k" "chain_within k s q"
    by (cases "length (heap s)") (auto simp: finite_chain_def)
  have f: "chain_fuel s = Suc (length (heap s) + 3)" by (simp add: chain_fuel_def)
  from isa_loop_ends[OF k(2), of "length (heap s) + 3"] k(1)
  have "\<exists>b. isa_loop (chain_fuel s) s (VObj q) (native_get (properties (obj_at s c)) ''prototype'') = Inr b"
    by (simp add: f)
  then show ?thesis using Some by (auto simp add: isa_def getPrototype_def Let_def)
qed

lemma chain_within_step:
  "0 < n \<Longrightarrow> chain_within n s a = (case proto (obj_at s a) of None \<Rightarrow> True | Some p \<Rightarrow> chain_within (n - 1) s p)"
  by (cases n) (auto split: option.splits)

lemma heap0_len: "length heap0 = 24"
  by (simp add: heap0_def)

lemma heap0_protos:
  "proto (heap0 ! 0) = Some 1" "proto (heap0 ! Suc 0) = None" "proto (heap0 ! 2) = Some 1"
  "proto (heap0 ! 4) = Some 1" "proto (heap0 ! 6) = Some 1" "proto (heap0 ! 16) = Some 1"
  "proto (heap0 ! 18) = Some 16" "proto (heap0 ! 20) = Some 16" "proto (heap0 ! 22) = Some 16"
  by (simp_all add: heap0_def new_Object_def prototype_obj_def error_proto_def)

lemma heap0_prototype:
  "native_get (properties (heap0 ! 3)) ''prototype'' = VObj 4"
  "native_get (properties (heap0 ! 5)) ''prototype'' = VObj 6"
  "native_get (properties (heap0 ! 15)) ''prototype'' = VObj 16"
  by (simp_all add: heap0_def new_Object_def constructor_obj_def native_get_def hidden_def)

lemma ex_fields:
  "heap (world sm fs obs) = heap0 @ obs"
  "scopes (world sm fs obs) = [\<lparr>parentScope = None, strict = sm, sobject = 0\<rparr>]"
  "stateStack (world sm fs obs) = fs"
  "setterStep (world sm fs obs) = False"
  "getterStep (world sm fs obs) = False"
  "paused (world sm fs obs) = False"
  "native_log (world sm fs obs) = []"
  "globalScope (world sm fs obs) = 0"
  "globalObject (world sm fs obs) = 0"
  "OBJECT_PROTO (world sm fs obs) = Suc 0"
  "ARRAY_PROTO (world sm fs obs) = 4"
  "STRING (world sm fs obs) = 5"
  "ARRAY (world sm fs obs) = 3"
  "DATE (world sm fs obs) = 11"
  "REGEXP (world sm fs obs) = 13"
  "ERROR (world sm fs obs) = 15"
  by (simp_all add: world_def)

lemma ex_nth: "(heap0 @ ob # obs) ! 24 = ob" "i < 24 \<Longrightarrow> (heap0 @ obs) ! i = heap0 ! i"
  by (simp_all add: heap0_len nth_append)

lemma ex_obj_at:
  "obj_at (world sm fs (ob # obs)) 24 = ob"
  "i < 24 \<Longrightarrow> obj_at (world sm fs obs) i = heap0 ! i"
  by (simp_all add: obj_at_def ex_fields ex_nth)

lemma ex_strict: "scope_strict (world sm (State p 0 # fs) obs) = Inr sm"
  by (simp add: scope_strict_def getScope_def ex_fields State_def)

lemma ex_fuel: "chain_fuel (world sm fs [ob]) = 29"
  by (simp add: chain_fuel_def ex_fields heap0_len)

lemma ex_isa_object:
  "proto ob = Some 1 \<Longrightarrow> isa (world sm fs [ob]) (VObj 24) 5 = Inr False"
  by (simp add: isa_def ex_fuel ex_obj_at heap0_prototype getPrototype_def strict_eq_def
      isa_loop_step proto_field_def heap0_protos Let_def)

lemma ex_isa_array:
  "proto ob = Some 4 \<Longrightarrow> isa (world sm fs [ob]) (VObj 24) 5 = Inr False"
  by (simp add: isa_def ex_fuel ex_obj_at heap0_prototype getPrototype_def strict_eq_def
      isa_loop_step proto_field_def heap0_protos Let_def)

lemma ex_finite_chain:
  "proto ob = Some 1 \<Longrightarrow> finite_chain (world sm fs [ob]) 24"
  "proto ob = Some 4 \<Longrightarrow> finite_chain (world sm fs [ob]) 24"
  by (simp_all add: finite_chain_def ex_fields heap0_len chain_within_step ex_obj_at heap0_protos)

lemma digit_not_space: "is_digit c \<Longrightarrow> \<not> is_space c"
  by (auto simp: is_digit_def is_space_def)

lemma trim_digits: "list_all is_digit x \<Longrightarrow> trim x = x"
proof (cases x)
  case Nil
  then show ?thesis by (simp add: trim_def)
next
  case (Cons c r)
  assume a: "list_all is_digit x"
  with Cons have "\<not> is_space (hd x)" by (simp add: digit_not_space)
  with Cons have 1: "dropWhile is_space x = x" by simp
  have ne: "x \<noteq> []" using Cons by simp
  with a have "is_digit (last x)" by (simp add: list_all_iff)
  then have "\<not> is_space (last x)" by (rule digit_not_space)
  then have "\<not> is_space (hd (rev x))" using ne by (simp add: hd_rev)
  moreover have "rev x \<noteq> []" using Cons by simp
  ultimately have "dropWhile is_space (rev x) = rev x" by (cases "rev x") auto
  with 1 show ?thesis by (simp add: trim_def)
qed

lemma overflow_small: "n < 2 ^ 32 \<Longrightarrow> overflow (of_nat n) = Fin (of_nat n)"
proof -
  assume "n < 2 ^ 32"
  then have "(of_nat n :: rat) < of_nat (2 ^ 32)" by (simp only: of_nat_less_iff)
  then have a: "(of_nat n :: rat) < 2 ^ 32" by simp
  have "(2 ^ 32 :: rat) \<le> 2 ^ 1024 - 2 ^ 970" by simp
  with a have "(of_nat n :: rat) < 2 ^ 1024 - 2 ^ 970" by linarith
  moreover have "- (2 ^ 1024 - 2 ^ 970) < (of_nat n :: rat)"
    by (rule less_le_trans[of _ 0]) simp_all
  ultimately show ?thesis by (simp add: overflow_def)
qed

lemma str_to_num0_numeral:
  "x \<noteq> [] \<Longrightarrow> list_all is_digit x \<Longrightarrow> digits_val x < 2 ^ 32 \<Longrightarrow>
   str_to_num0 x = Fin (of_nat (digits_val x))"
  by (simp add: str_to_num0_def trim_digits overflow_small Let_def)

lemma digit_set: "d < 10 \<Longrightarrow> digit d \<in> set ''0123456789''"
proof -
  assume "d < 10"
  then have "d \<in> {0, 1, 2, 3, 4, 5, 6, 7, 8, 9}" by auto
  then show ?thesis by (auto simp: digit_def)
qed

lemma dec_last: "last (dec n) = digit (n mod 10)"
  by (subst dec.simps) simp

lemma legalArrayIndex_nondigit:
  assumes "x \<noteq> []" and "last x \<notin> set ''0123456789''"
  shows "legalArrayIndex H x = None"
proof -
  have "dec n \<noteq> x" for n
  proof
    assume "dec n = x"
    then have "last x = digit (n mod 10)" by (simp only: dec_last[symmetric])
    moreover have "digit (n mod 10) \<in> set ''0123456789''" by (rule digit_set) simp
    ultimately show False using assms(2) by simp
  qed
  then show ?thesis by (simp add: legalArrayIndex_def Let_def)
qed

lemma legalArrayIndex_length: "legalArrayIndex H ''length'' = None"
  by (rule legalArrayIndex_nondigit) simp_all

lemma H0_index: "legalArrayIndex H0 ''5'' = Some 5" "legalArrayIndex H0 ''x'' = None" "legalArrayIndex H0 ''y'' = None"
  by (simp_all add: legalArrayIndex_nondigit)
     (simp add: legalArrayIndex_def H0_def str_to_num0_numeral is_digit_def digits_val_def trunc_def digit_def)

lemma H0_indices:
  "legalArrayIndex H0 ''0'' = Some 0" "legalArrayIndex H0 ''1'' = Some 1"
  "legalArrayIndex H0 ''2'' = Some 2"
  by (simp_all add: legalArrayIndex_def H0_def str_to_num0_numeral is_digit_def digits_val_def trunc_def digit_def)


lemma has_loop_ends:
  "chain_within k s a \<Longrightarrow> k \<le> n \<Longrightarrow> \<exists>b. has_loop n s (VObj a) name = Inr b"
proof (induction k s a arbitrary: n rule: chain_within.induct)
  case (1 s a)
  then show ?case by simp
next
  case (2 k s a)
  then obtain m where n: "n = Suc m" and km: "k \<le> m" by (cases n) auto
  show ?case
  proof (cases "proto (obj_at s a)")
    case None
    then show ?thesis by (auto simp add: n has_loop_step getPrototype_def)
  next
    case (Some q)
    with 2 km have "\<exists>b. has_loop m s (VObj q) name = Inr b" by simp
    with Some show ?thesis by (auto simp add: n has_loop_step getPrototype_def)
  qed
qed

lemma step_rethrows:
  assumes "stateStack s \<noteq> []" and "\<not> (ntype (fnode_of (top_frame s)) = ''Program'' \<and> fdone (top_frame s))"
    and "\<not> paused s" and "sf s = (Inl e, s1)" and "e \<noteq> STEP_ERROR"
  shows "step sf s = Some (Inl e, s1)"
  using assms by (simp add: step_def step_loop.simps[of sf None s] step_once_def)

lemma heap0_global:
  "properties (heap0 ! 0) = [(''setVal'', plain (VObj 23)),
        (''answer'', \<lparr>pvalue = VUndef, writable = False, enumerable = True, configurable = True\<rparr>)]"
  "getter (heap0 ! 0) = [(''answer'', VObj 23)]"
  "setter (heap0 ! 0) = []"
  by (simp_all add: heap0_def new_Object_def)

lemma ex_fuel0: "chain_fuel (world sm fs []) = 28"
  by (simp add: chain_fuel_def ex_fields heap0_len)

lemma ex_isa_global: "isa (world sm fs []) (VObj 0) 5 = Inr False"
  by (simp add: isa_def ex_fuel0 ex_obj_at heap0_prototype getPrototype_def strict_eq_def
      isa_loop_step proto_field_def heap0_protos Let_def)

lemma ex_has_answer: "hasProperty H0 (world sm fs []) (VObj 0) ''answer'' = Inr True"
  by (simp add: hasProperty_def ex_fields ex_isa_global ex_fuel0 has_loop_step own_has_def
      ex_obj_at heap0_global has_key_def)

lemma ex_get_answer:
  "getProperty H0 (VObj 0) ''answer'' (world sm fs [])
     = (Inr (VObj 23), (world sm fs [])\<lparr>getterStep := True\<rparr>)"
  by (simp add: getProperty_def ex_fields ex_fuel0 get_loop_step own_has_def
      ex_obj_at heap0_global has_key_def map_get_def)

lemma ex_pop: "pop (world sm (f # fs) obs) = world sm fs obs"
  by (simp add: pop_def world_def)

lemma ex_top: "top_frame (world sm (f # fs) obs) = f"
  by (simp add: top_frame_def world_def)

lemma ex_lookup_answer:
  "fscope f = 0 \<Longrightarrow> getValueFromScope H0 ''answer'' (world sm (f # fs) [])
     = (Inr (VObj 23), (world sm (f # fs) [])\<lparr>getterStep := True\<rparr>)"
  by (simp add: getValueFromScope_def getScope_def ex_fields scope_loop_step
      ex_has_answer ex_get_answer)


lemma ex_finite_chain0: "finite_chain (world sm fs []) 0"
  by (simp add: finite_chain_def ex_fields heap0_len chain_within_step ex_obj_at heap0_protos)

lemma ex_getter_handler:
  "handlers H0 (world False getter_stack [])
     = (Inl (Native (HostError ''TypeError'' ''Primitive data type has no properties'')),
        (world False (tl getter_stack) [])\<lparr>getterStep := True\<rparr>)"
  by (simp add: handlers_def getter_stack_def ex_top State_def stepIdentifier_def ex_pop
      ex_lookup_answer)





lemma step_once_paused:
  "step_once sf nxt t = x \<Longrightarrow> \<not> paused t \<Longrightarrow>
     paused (case x of Inl (r, t') \<Rightarrow> t' | Inr (nx, t') \<Rightarrow> t') \<Longrightarrow>
     \<not> finished t \<and> paused (snd (sf t))"
  by (auto simp: step_once_def finished_def Let_def split: if_splits sum.splits prod.splits option.splits)

lemma reach_paused:
  "reach sf s t \<Longrightarrow> \<not> paused s \<Longrightarrow> paused t \<Longrightarrow>
     \<exists>u. reach sf s u \<and> \<not> paused u \<and> \<not> finished u \<and> paused (snd (sf u))"
proof (induction rule: reach.induct)
  case start
  then show ?case by simp
next
  case (again t nxt nx t')
  show ?case
  proof (cases "paused t")
    case True
    with again show ?thesis by simp
  next
    case False
    from step_once_paused[OF again(2) False] again(5) have "\<not> finished t \<and> paused (snd (sf t))" by simp
    with again(1) False show ?thesis by blast
  qed
next
  case (leave t nxt r t')
  show ?case
  proof (cases "paused t")
    case True
    with leave show ?thesis by simp
  next
    case False
    from step_once_paused[OF leave(2) False] leave(5) have "\<not> finished t \<and> paused (snd (sf t))" by simp
    with leave(1) False show ?thesis by blast
  qed
qed





lemma step_finished:
  "finished s \<Longrightarrow> step sf s = Some (Inr False, s)"
  by (auto simp: step_def step_loop.simps[of sf None s] step_once_def finished_def)












lemma obj_at_stack [simp]: "obj_at (s\<lparr>stateStack := x\<rparr>) a = obj_at s a"
  by (simp add: obj_at_def)

lemma proto_field_stack [simp]: "proto_field (s\<lparr>stateStack := x\<rparr>) v = proto_field s v"
  by (cases v) (simp_all add: proto_field_def)

lemma getPrototype_stack [simp]: "getPrototype (s\<lparr>stateStack := x\<rparr>) v = getPrototype s v"
  by (cases v) (simp_all add: getPrototype_def)

lemma isa_loop_stack [simp]: "isa_loop k (s\<lparr>stateStack := x\<rparr>) c p = isa_loop k s c p"
  by (induction k arbitrary: c) (simp_all add: isa_loop.simps)

lemma isa_stack [simp]: "isa (s\<lparr>stateStack := x\<rparr>) v c = isa s v c"
  by (simp add: isa_def chain_fuel_def Let_def)





















lemma own_has_stack [simp]: "own_has (s\<lparr>stateStack := x\<rparr>) v name = own_has s v name"
  by (cases v) (simp_all add: own_has_def)

lemma has_loop_stack [simp]: "has_loop k (s\<lparr>stateStack := x\<rparr>) v name = has_loop k s v name"
  by (induction k arbitrary: v) (simp_all add: has_loop.simps)

lemma index_below_stack [simp]: "index_below H (s\<lparr>stateStack := x\<rparr>) v name = index_below H s v name"
  by (simp add: index_below_def split: option.splits)

lemma hasProperty_stack [simp]: "hasProperty H (s\<lparr>stateStack := x\<rparr>) v name = hasProperty H s v name"
  by (cases v) (auto simp: hasProperty_def chain_fuel_def split: sum.splits)

lemma scope_loop_stack [simp]: "scope_loop k (s\<lparr>stateStack := x\<rparr>) sc name = scope_loop k s sc name"
  by (induction k s sc name rule: scope_loop.induct) (simp_all add: scope_loop.simps)

lemma scopes_below_stack [simp]: "scopes_below k (s\<lparr>stateStack := x\<rparr>) sc = scopes_below k s sc"
  by (induction k s sc rule: scopes_below.induct) simp_all

lemma scope_loop_unbound:
  assumes "scopes_below k s sc = Some path"
    and "\<forall>c\<in>set path. \<not> has_key (properties (obj_at s (sobject (scopes s ! c)))) name"
  shows "scope_loop k s sc name = Inr (Inr None)
       \<or> scope_loop k s sc name = Inr (Inr (Some (globalScope s)))"
  using assms
proof (induction k s sc arbitrary: path rule: scopes_below.induct)
  case (1 s sc)
  then show ?case by simp
next
  case (2 k s)
  then show ?case by (simp add: scope_loop.simps)
next
  case (3 k s sc)
  show ?case
  proof (cases "sc = globalScope s")
    case True
    then show ?thesis by (simp add: scope_loop.simps)
  next
    case False
    with 3(2) obtain p where p: "scopes_below k s (parentScope (scopes s ! sc)) = Some p" "path = sc # p"
      by auto
    from 3(3) p(2) have n: "\<not> has_key (properties (obj_at s (sobject (scopes s ! sc)))) name"
      and r: "\<forall>c\<in>set p. \<not> has_key (properties (obj_at s (sobject (scopes s ! c)))) name" by auto
    from 3(1)[OF False p(1) r] False n show ?thesis by (simp add: scope_loop.simps)
  qed
qed

declare scopes_below.simps [simp del]

lemma lookup_unbound:
  assumes "stateStack s = p # rest"
    and "scopes_below (length (scopes s) + 1) s (Some (fscope p)) = Some path"
    and "\<forall>c\<in>set path. \<not> has_key (properties (obj_at s (sobject (scopes s ! c)))) name"
    and "hasProperty H s (VObj (sobject (scopes s ! globalScope s))) name = Inr False"
  shows "getValueFromScope H name s =
     (if is_typeof (fnode_of p) then (Inr VUndef, s)
      else (Inl (Guest C_REFERENCE_ERROR (name @ '' is not defined'')), s))"
  using scope_loop_unbound[OF assms(2,3)] assms(1,4)
  by (auto simp: getValueFromScope_def getScope_def)


lemma in_fields:
  "heap (inner_world fs) = heap0 @ [scope_obj]"
  "stateStack (inner_world fs) = fs"
  "scopes (inner_world fs) = [\<lparr>parentScope = None, strict = False, sobject = 0\<rparr>,
      \<lparr>parentScope = Some 0, strict = False, sobject = 24\<rparr>]"
  "globalScope (inner_world fs) = 0"
  "getterStep (inner_world fs) = False"
  "STRING (inner_world fs) = 5"
  by (simp_all add: inner_world_def world_def)

lemma in_obj_at:
  "obj_at (inner_world fs) 24 = scope_obj"
  "i < 24 \<Longrightarrow> obj_at (inner_world fs) i = heap0 ! i"
  by (simp_all add: obj_at_def in_fields ex_nth)

lemma in_stack: "(inner_world fs)\<lparr>stateStack := gs\<rparr> = inner_world gs"
  by (simp add: inner_world_def world_def)

lemma in_pop: "pop (inner_world (f # fs)) = inner_world fs"
  by (simp add: pop_def in_fields in_stack)

lemma heap0_object_proto: "properties (heap0 ! Suc 0) = [(''constructor'', hidden (VObj 1))]"
  by (simp add: heap0_def new_Object_def)

lemma in_isa_global: "isa (inner_world fs) (VObj 0) 5 = Inr False"
  by (simp add: isa_def chain_fuel_def in_fields heap0_len in_obj_at heap0_prototype getPrototype_def
      strict_eq_def isa_loop_step proto_field_def heap0_protos Let_def)

lemma in_has_nope: "hasProperty H0 (inner_world fs) (VObj 0) ''nope'' = Inr False"
  by (simp add: hasProperty_def in_fields in_isa_global chain_fuel_def heap0_len has_loop_step
      own_has_def in_obj_at heap0_global has_key_def getPrototype_def heap0_protos heap0_object_proto)

lemma in_scopes_below:
  "scopes_below (length (scopes (inner_world fs)) + 1) (inner_world fs) (Some (Suc 0)) = Some [Suc 0]"
  by (simp add: in_fields scopes_below.simps)

lemma in_scope_obj: "\<not> has_key (properties (obj_at (inner_world fs) (sobject (scopes (inner_world fs) ! Suc 0)))) ''nope''"
  by (simp add: in_fields in_obj_at scope_obj_def has_key_def)

lemma paused_upd [simp]:
  "paused (upd_props a ps s) = paused s"
  "paused (upd_obj a f s) = paused s"
  "paused (set_top g s) = paused s"
  "paused (pop s) = paused s"
  by (simp_all add: upd_props_def upd_obj_def set_top_def pop_def)



















lemma paused_pair:
  assumes "\<And>s. paused (snd (f s)) = paused s" and "f s = (r, s1)"
  shows "paused s1 = paused s"
  using assms(1)[of s] assms(2) by simp

































lemma ex_async_pending: "async_pending H0 paused_world"
proof -
  have o: "obj_at paused_world 24 = async_fn"
    using ex_obj_at(1)[of False "(hd call_stack)\<lparr>doneExec := True\<rparr> # tl call_stack" async_fn "[]"]
    by (simp add: paused_world_def obj_at_def)
  have t: "top_frame paused_world = (hd call_stack)\<lparr>doneExec := True\<rparr>"
    by (simp add: paused_world_def top_frame_def ex_fields)
  have f: "paused paused_world" "stateStack paused_world \<noteq> []"
      "native_log paused_world = [(Suc 0, [])]"
    by (simp_all add: paused_world_def ex_fields)
  show ?thesis
    by (simp add: async_pending_def o t f call_stack_def State_def async_fn_def new_Object_def H0_def)
qed

section \<open>C7: objects that are not extensible\<close>

text \<open>
  C7.  Let \<open>setProperty\<close> be called on an object that is not extensible, with no setter
  call pending and with a descriptor, if any, that does not name both an accessor and a
  value.  On every object that is not an Array the engine does what the claim says: if
  the key is absent from the object's own properties, then in sloppy mode the call
  returns \<open>undefined\<close> and leaves the whole interpreter unchanged, and in strict mode it
  throws a guest TypeError, the interpreter unchanged up to the throw; if the key is
  present as a writable data property without accessor (and is not the length or a
  character of a String object, which no assignment changes), the assignment stores the
  value as on an extensible object.  On an Array the engine departs from the claim: see
  the failing input below.
\<close>

theorem nonextensible_absent_key:
  assumes "\<not> setterStep s" and "scope_strict s = Inr sm"
    and "desc_ok desc" and "finite_chain s a"
    and "preventExtensions (obj_at s a)" and "cls (obj_at s a) \<noteq> ''Array''"
  shows "(\<not> has_key (properties (obj_at s a)) name \<longrightarrow>
           (\<exists>m. setProperty H (VObj a) name x desc s
                  = (if sm then Inl (Guest C_TYPE_ERROR m) else Inr VUndef, s)))
       \<and> (has_key (properties (obj_at s a)) name
            \<and> writable (the (map_of (properties (obj_at s a)) name))
            \<and> \<not> truthy (map_get (setter (obj_at s a)) name)
            \<and> \<not> truthy (map_get (getter (obj_at s a)) name)
            \<and> \<not> (isa s (VObj a) (STRING s) = Inr True
                   \<and> (name = ''length'' \<or> index_below H s (VObj a) name)) \<longrightarrow>
           setProperty H (VObj a) name (Given v) None s
             = (Inr VUndef, upd_props a (AList.update name
                   ((the (map_of (properties (obj_at s a)) name))\<lparr>pvalue := v\<rparr>)
                   (properties (obj_at s a))) s))"
proof -
  from isa_obj_returns[OF assms(4)] obtain st where st: "isa s (VObj a) (STRING s) = Inr st" by blast
  have A: "\<not> has_key (properties (obj_at s a)) name \<Longrightarrow>
           (\<exists>m. setProperty H (VObj a) name x desc s
                  = (if sm then Inl (Guest C_TYPE_ERROR m) else Inr VUndef, s))"
    using assms st by (auto simp: setProperty_def set_object_def desc_ok_def split: option.splits)
  have B: "has_key (properties (obj_at s a)) name
            \<and> writable (the (map_of (properties (obj_at s a)) name))
            \<and> \<not> truthy (map_get (setter (obj_at s a)) name)
            \<and> \<not> truthy (map_get (getter (obj_at s a)) name)
            \<and> \<not> (isa s (VObj a) (STRING s) = Inr True
                   \<and> (name = ''length'' \<or> index_below H s (VObj a) name)) \<Longrightarrow>
           setProperty H (VObj a) name (Given v) None s
             = (Inr VUndef, upd_props a (AList.update name
                   ((the (map_of (properties (obj_at s a)) name))\<lparr>pvalue := v\<rparr>)
                   (properties (obj_at s a))) s)"
    using assms st by (auto simp: setProperty_def set_object_def set_assign_def def_loop_own
           native_assign_def has_key_def split: option.splits)
  show ?thesis using A B by blast
qed

text \<open>The theorem at a sealed object \<open>{x: 1}\<close>: setting \<open>y\<close> changes nothing, setting \<open>x\<close>
  stores the value.\<close>

theorem nonextensible_absent_key_witness:
  "\<not> setterStep (world False [State (Program 9 []) 0] [frozen_obj])
   \<and> scope_strict (world False [State (Program 9 []) 0] [frozen_obj]) = Inr False
   \<and> desc_ok None \<and> finite_chain (world False [State (Program 9 []) 0] [frozen_obj]) 24
   \<and> preventExtensions (obj_at (world False [State (Program 9 []) 0] [frozen_obj]) 24)
   \<and> cls (obj_at (world False [State (Program 9 []) 0] [frozen_obj]) 24) \<noteq> ''Array''
   \<and> \<not> has_key (properties (obj_at (world False [State (Program 9 []) 0] [frozen_obj]) 24)) ''y''
   \<and> setProperty H0 (VObj 24) ''y'' (Given (VNum (Fin 2))) None (world False [State (Program 9 []) 0] [frozen_obj])
       = (Inr VUndef, world False [State (Program 9 []) 0] [frozen_obj])
   \<and> fst (setProperty H0 (VObj 24) ''x'' (Given (VNum (Fin 2))) None (world False [State (Program 9 []) 0] [frozen_obj]))
       = Inr VUndef
   \<and> native_get (properties (obj_at (snd (setProperty H0 (VObj 24) ''x'' (Given (VNum (Fin 2))) None
         (world False [State (Program 9 []) 0] [frozen_obj]))) 24)) ''x'' = VNum (Fin 2)"
proof -
  let ?s = "world False [State (Program 9 []) 0] [frozen_obj]"
  have p: "proto frozen_obj = Some 1" by (simp add: frozen_obj_def new_Object_def)
  have h1: "\<not> setterStep ?s" by (simp add: ex_fields)
  have h2: "scope_strict ?s = Inr False" by (simp add: ex_strict)
  have h3: "desc_ok None" by (simp add: desc_ok_def)
  have h4: "finite_chain ?s 24" by (rule ex_finite_chain(1)[OF p])
  have h5: "preventExtensions (obj_at ?s 24)" by (simp add: ex_obj_at frozen_obj_def)
  have h6: "cls (obj_at ?s 24) \<noteq> ''Array''" by (simp add: ex_obj_at frozen_obj_def new_Object_def)
  have h7: "\<not> has_key (properties (obj_at ?s 24)) ''y''" by (simp add: ex_obj_at frozen_obj_def has_key_def)
  have h8: "has_key (properties (obj_at ?s 24)) ''x''
            \<and> writable (the (map_of (properties (obj_at ?s 24)) ''x''))
            \<and> \<not> truthy (map_get (setter (obj_at ?s 24)) ''x'')
            \<and> \<not> truthy (map_get (getter (obj_at ?s 24)) ''x'')
            \<and> \<not> (isa ?s (VObj 24) (STRING ?s) = Inr True
                   \<and> (''x'' = ''length'' \<or> index_below H0 ?s (VObj 24) ''x''))"
    by (simp add: ex_obj_at ex_fields ex_isa_object[OF p]) (simp add: frozen_obj_def has_key_def plain_def new_Object_def map_get_def)
  note T = nonextensible_absent_key[OF h1 h2 h3 h4 h5 h6, of "''y''" H0 "Given (VNum (Fin 2))"]
  note U = nonextensible_absent_key[OF h1 h2 h3 h4 h5 h6, of "''x''" H0 _ "VNum (Fin 2)"]
  from T h7 have r1: "setProperty H0 (VObj 24) ''y'' (Given (VNum (Fin 2))) None ?s = (Inr VUndef, ?s)" by simp
  from U h8 have r2: "setProperty H0 (VObj 24) ''x'' (Given (VNum (Fin 2))) None ?s = (Inr VUndef, upd_props 24 (AList.update ''x''
                   ((the (map_of (properties (obj_at ?s 24)) ''x''))\<lparr>pvalue := VNum (Fin 2)\<rparr>)
                   (properties (obj_at ?s 24))) ?s)" by blast
  have r3: "native_get (properties (obj_at (upd_props 24 (AList.update ''x''
                   ((the (map_of (properties (obj_at ?s 24)) ''x''))\<lparr>pvalue := VNum (Fin 2)\<rparr>)
                   (properties (obj_at ?s 24))) ?s) 24)) ''x'' = VNum (Fin 2)"
    by (simp add: upd_props_def obj_at_def ex_fields ex_nth heap0_len) (simp add: native_get_def frozen_obj_def plain_def)
  show ?thesis using h1 h2 h3 h4 h5 h6 h7 r1 r2 r3 by simp
qed

text \<open>
  The failing input: the Array branch of \<open>setProperty\<close> writes \<open>length\<close> before the test of
  extensibility refuses the key.  On the sealed array \<open>['a']\<close>, setting index 5 in sloppy
  mode returns \<open>undefined\<close> and adds no element, yet raises \<open>length\<close> from 1 to 6; the claim,
  the language the engine implements, and the engine's own \<open>Object.defineProperty\<close>, which
  tests extensibility before it calls \<open>setProperty\<close>, leave such an array unchanged.
\<close>

theorem nonextensible_array_counterexample:
  "preventExtensions (obj_at (world False [State (Program 9 []) 0] [frozen_arr]) 24)
   \<and> \<not> has_key (properties (obj_at (world False [State (Program 9 []) 0] [frozen_arr]) 24)) ''5''
   \<and> scope_strict (world False [State (Program 9 []) 0] [frozen_arr]) = Inr False
   \<and> fst (setProperty H0 (VObj 24) ''5'' (Given (VStr ''b'')) None (world False [State (Program 9 []) 0] [frozen_arr])) = Inr VUndef
   \<and> native_get (properties (obj_at (world False [State (Program 9 []) 0] [frozen_arr]) 24)) ''length'' = VNum (Fin 1)
   \<and> native_get (properties (obj_at (snd (setProperty H0 (VObj 24) ''5'' (Given (VStr ''b'')) None
         (world False [State (Program 9 []) 0] [frozen_arr]))) 24)) ''length'' = VNum (Fin 6)
   \<and> scope_strict (world True [State (Program 9 []) 0] [frozen_arr]) = Inr True
   \<and> (\<exists>m. fst (setProperty H0 (VObj 24) ''5'' (Given (VStr ''b'')) None
                (world True [State (Program 9 []) 0] [frozen_arr])) = Inl (Guest C_TYPE_ERROR m))
   \<and> native_get (properties (obj_at (snd (setProperty H0 (VObj 24) ''5'' (Given (VStr ''b'')) None
         (world True [State (Program 9 []) 0] [frozen_arr]))) 24)) ''length'' = VNum (Fin 6)"
proof -
  let ?ps = "[(''length'', \<lparr>pvalue = VNum (Fin 6), writable = True, enumerable = False, configurable = False\<rparr>),
                    (''0'', plain (VStr ''a''))]"
  have p: "proto frozen_arr = Some 4" by (simp add: frozen_arr_def new_Object_def)
  have a: "set_array H0 24 ''5'' (Given (VStr ''b'')) None (world sm [State (Program 9 []) 0] [frozen_arr])
      = (Inr (Some (Given (VStr ''b''))), upd_props 24 ?ps (world sm [State (Program 9 []) 0] [frozen_arr]))" for sm
    by (simp add: set_array_def H0_index ex_obj_at ex_fields) (simp add: frozen_arr_def native_get_def native_assign_def num_max_def)
  have b: "obj_at (upd_props 24 ps (world sm [State (Program 9 []) 0] [frozen_arr])) 24 = frozen_arr\<lparr>properties := ps\<rparr>" for ps sm
    by (simp add: upd_props_def obj_at_def ex_fields ex_nth heap0_len)
  have c: "cls frozen_arr = ''Array''" "preventExtensions frozen_arr" by (simp_all add: frozen_arr_def)
  have r: "\<exists>m. setProperty H0 (VObj 24) ''5'' (Given (VStr ''b'')) None (world sm [State (Program 9 []) 0] [frozen_arr])
     = (if sm then Inl (Guest C_TYPE_ERROR m) else Inr VUndef,
        upd_props 24 ?ps (world sm [State (Program 9 []) 0] [frozen_arr]))" for sm
    by (simp add: setProperty_def ex_fields ex_strict set_object_def ex_isa_array[OF p] ex_obj_at(1) a b c has_key_def)
  from r[of False] have r1: "setProperty H0 (VObj 24) ''5'' (Given (VStr ''b'')) None (world False [State (Program 9 []) 0] [frozen_arr])
     = (Inr VUndef, upd_props 24 ?ps (world False [State (Program 9 []) 0] [frozen_arr]))" by simp
  from r[of True] obtain m where r2: "setProperty H0 (VObj 24) ''5'' (Given (VStr ''b'')) None (world True [State (Program 9 []) 0] [frozen_arr])
     = (Inl (Guest C_TYPE_ERROR m), upd_props 24 ?ps (world True [State (Program 9 []) 0] [frozen_arr]))" by auto
  show ?thesis
    by (simp add: r1 r2 b ex_strict ex_obj_at) (simp add: frozen_arr_def has_key_def native_get_def)
qed


section \<open>C10: the receiver of hasProperty\<close>

text \<open>
  C10.  \<open>hasProperty\<close> on a receiver that is not a guest object throws a host TypeError;
  on a guest object whose prototype chain ends it returns a boolean.  \<open>hasProperty\<close>
  only reads the interpreter.  Guest code cannot catch the TypeError: when the handler
  that \<open>step\<close> dispatches ends in it, \<open>step\<close> throws it to the host with the interpreter
  as the handler left it, no frame unwound and no completion stored in a \<open>try\<close> frame.
\<close>

theorem hasProperty_receivers:
  "((\<forall>a. v \<noteq> VObj a) \<longrightarrow>
      hasProperty H s v name
        = Inl (Native (HostError ''TypeError'' ''Primitive data type has no properties'')))
   \<and> (finite_chain s a \<longrightarrow> (\<exists>b. hasProperty H s (VObj a) name = Inr b))
   \<and> ((\<forall>a. v \<noteq> VObj a) \<and> hasProperty H s1 v name = Inl e \<and> handlers H s = (Inl e, s1)
        \<and> stateStack s \<noteq> [] \<and> \<not> (ntype (fnode_of (top_frame s)) = ''Program'' \<and> fdone (top_frame s))
        \<and> \<not> paused s \<longrightarrow>
        step (dispatch H) s = Some (Inl e, s1))"
proof -
  have A: "(\<forall>a. v \<noteq> VObj a) \<Longrightarrow> hasProperty H s v name
        = Inl (Native (HostError ''TypeError'' ''Primitive data type has no properties''))" for s
    by (cases v) (simp_all add: hasProperty_def)
  have B: "\<exists>b. hasProperty H s (VObj a) name = Inr b" if fc: "finite_chain s a"
  proof -
    from isa_obj_returns[OF fc] obtain st where st: "isa s (VObj a) (STRING s) = Inr st" by blast
    from fc have "chain_within (length (heap s)) s a" by (simp add: finite_chain_def)
    from has_loop_ends[OF this, of "chain_fuel s" name]
    obtain b where "has_loop (chain_fuel s) s (VObj a) name = Inr b" by (auto simp: chain_fuel_def)
    then show ?thesis by (auto simp add: hasProperty_def st)
  qed
  have C: "step (dispatch H) s = Some (Inl e, s1)"
    if "\<forall>a. v \<noteq> VObj a" "hasProperty H s1 v name = Inl e" "handlers H s = (Inl e, s1)"
       "stateStack s \<noteq> []" "\<not> (ntype (fnode_of (top_frame s)) = ''Program'' \<and> fdone (top_frame s))"
       "\<not> paused s"
  proof -
    from A[OF that(1), of s1] that(2)
    have e: "e = Native (HostError ''TypeError'' ''Primitive data type has no properties'')" by simp
    have d: "dispatch H s = (Inl e, s1)"
      using that(3) by (simp add: dispatch_def e throwException_def)
    from step_rethrows[where sf="dispatch H", OF that(4,5,6) d] show ?thesis by (simp add: e)
  qed
  show ?thesis using A B C by blast
qed

text \<open>
  The theorem inside \<open>try { answer } catch (e) {}\<close>, where the global \<open>answer\<close> has a
  getter: the step of the identifier runs \<open>hasProperty\<close> on a scope, which is not a
  guest object, and the TypeError leaves \<open>step\<close> past the \<open>try\<close> frame.
\<close>

theorem hasProperty_receivers_witness:
  "hasProperty H0 (world False getter_stack []) (VStr ''abc'') ''length''
     = Inl (Native (HostError ''TypeError'' ''Primitive data type has no properties''))
   \<and> finite_chain (world False getter_stack []) 0
   \<and> (\<exists>b. hasProperty H0 (world False getter_stack []) (VObj 0) ''length'' = Inr b)
   \<and> handlers H0 (world False getter_stack [])
       = (Inl (Native (HostError ''TypeError'' ''Primitive data type has no properties'')),
          (world False (tl getter_stack) [])\<lparr>getterStep := True\<rparr>)
   \<and> step (dispatch H0) (world False getter_stack [])
       = Some (Inl (Native (HostError ''TypeError'' ''Primitive data type has no properties'')),
               (world False (tl getter_stack) [])\<lparr>getterStep := True\<rparr>)
   \<and> map (\<lambda>f. (ntype (fnode_of f), cv f)) (tl getter_stack)
       = [(''ExpressionStatement'', None), (''BlockStatement'', None),
          (''TryStatement'', None), (''Program'', None)]"
proof -
  let ?s = "world False getter_stack []"
  let ?e = "Native (HostError ''TypeError'' ''Primitive data type has no properties'')"
  let ?s1 = "(world False (tl getter_stack) [])\<lparr>getterStep := True\<rparr>"
  note T = hasProperty_receivers[of "VStr ''abc''" H0 ?s "''length''" 0 ?s1 ?e]
  have h1: "\<forall>a. VStr ''abc'' \<noteq> VObj a" by simp
  have h2: "finite_chain ?s 0" by (rule ex_finite_chain0)
  have h3: "hasProperty H0 ?s1 (VStr ''abc'') ''length'' = Inl ?e" by (simp add: hasProperty_def)
  have h4: "handlers H0 ?s = (Inl ?e, ?s1)" by (rule ex_getter_handler)
  have h5: "stateStack ?s \<noteq> [] \<and> \<not> (ntype (fnode_of (top_frame ?s)) = ''Program'' \<and> fdone (top_frame ?s))
        \<and> \<not> paused ?s"
    by (simp add: ex_fields top_frame_def getter_stack_def State_def)
  have h6: "map (\<lambda>f. (ntype (fnode_of f), cv f)) (tl getter_stack)
       = [(''ExpressionStatement'', None), (''BlockStatement'', None),
          (''TryStatement'', None), (''Program'', None)]"
    by (simp add: getter_stack_def State_def)
  from T h1 h2 h3 h4 h5 h6 show ?thesis by blast
qed

section \<open>C3: no step while paused\<close>

text \<open>
  C3, as amended.  For every table of handlers: when \<open>paused_\<close> is set and the stack still
  has work, \<open>step\<close> returns true, dispatches no handler and leaves the interpreter as it
  was; when the stack is empty or its top frame is the \<open>Program\<close> frame marked done,
  \<open>step\<close> returns false and leaves the interpreter as it was, whatever \<open>paused_\<close> is
  (this test comes first in the source); so a call of \<open>step\<close> while \<open>paused_\<close> is set never
  changes the state stack.
\<close>

theorem step_while_paused:
  "(paused s \<and> \<not> finished s \<longrightarrow> step sf s = Some (Inr True, s))
   \<and> (finished s \<longrightarrow> step sf s = Some (Inr False, s))
   \<and> (paused s \<longrightarrow> (\<exists>b. step sf s = Some (Inr b, s)))"
  by (auto simp: step_def step_loop.simps[of sf None s] step_once_def finished_def)

text \<open>The theorem at an interpreter paused on an asynchronous call, and at one whose
  program has completed.\<close>

theorem step_while_paused_witness:
  "paused paused_world \<and> \<not> finished paused_world
   \<and> step (dispatch H0) paused_world = Some (Inr True, paused_world)
   \<and> finished (world False [(State (Program 9 []) 0)\<lparr>fdone := True\<rparr>] [])
   \<and> step (dispatch H0) (world False [(State (Program 9 []) 0)\<lparr>fdone := True\<rparr>] [])
       = Some (Inr False, world False [(State (Program 9 []) 0)\<lparr>fdone := True\<rparr>] [])"
proof -
  have p: "paused paused_world" by (simp add: paused_world_def)
  have n: "\<not> finished paused_world"
    by (simp add: paused_world_def finished_def top_frame_def ex_fields call_stack_def State_def)
  have f: "finished (world False [(State (Program 9 []) 0)\<lparr>fdone := True\<rparr>] [])"
    by (simp add: finished_def ex_fields ex_top State_def)
  from step_while_paused[of paused_world "dispatch H0"]
       step_while_paused[of "world False [(State (Program 9 []) 0)\<lparr>fdone := True\<rparr>] []" "dispatch H0"]
       p n f
  show ?thesis by blast
qed

text \<open>
  The claim as stated fails where it says that \<open>step\<close> returns true whenever \<open>paused_\<close> is
  set: with \<open>paused_\<close> set and the root frame marked done, \<open>step\<close> returns false.
\<close>

theorem step_paused_done_counterexample:
  "paused ((world False [(State (Program 9 []) 0)\<lparr>fdone := True\<rparr>] [])\<lparr>paused := True\<rparr>)
   \<and> step (dispatch H0) ((world False [(State (Program 9 []) 0)\<lparr>fdone := True\<rparr>] [])\<lparr>paused := True\<rparr>)
       = Some (Inr False, (world False [(State (Program 9 []) 0)\<lparr>fdone := True\<rparr>] [])\<lparr>paused := True\<rparr>)"
proof -
  have "finished ((world False [(State (Program 9 []) 0)\<lparr>fdone := True\<rparr>] [])\<lparr>paused := True\<rparr>)"
    by (simp add: finished_def top_frame_def ex_fields State_def)
  then show ?thesis by (simp add: step_finished)
qed

section \<open>C1: a throw nothing catches\<close>




section \<open>C5: identifiers that resolve to nothing\<close>

text \<open>
  C5.  Let the frame on top of the stack evaluate the identifier \<open>name\<close> as a value, let
  no scope searched before the global scope have the key \<open>name\<close>, and let \<open>name\<close> not be a
  property of the global object.  When the frame below is not a \<open>typeof\<close> expression, the
  handler throws a guest ReferenceError, \<open>name is not defined\<close>.  When it is, the handler
  throws nothing and hands \<open>undefined\<close> to that frame, whose own step then hands the
  string \<open>undefined\<close> to the frame below it.
\<close>

theorem unresolved_identifier:
  assumes "stateStack s = idf # p # q # below"
    and "fnode_of idf = Identifier e name" and "\<not> components idf" and "\<not> getterStep s"
    and "scopes_below (length (scopes s) + 1) s (Some (fscope p)) = Some path"
    and "\<forall>c\<in>set path. \<not> has_key (properties (obj_at s (sobject (scopes s ! c)))) name"
    and "hasProperty H s (VObj (sobject (scopes s ! globalScope s))) name = Inr False"
  shows "(\<not> is_typeof (fnode_of p) \<longrightarrow>
            handlers H s = (Inl (Guest C_REFERENCE_ERROR (name @ '' is not defined'')),
                            s\<lparr>stateStack := p # q # below\<rparr>))
       \<and> (is_typeof (fnode_of p) \<longrightarrow>
            handlers H s = (Inr None, s\<lparr>stateStack := p\<lparr>fvalue := Val VUndef\<rparr> # q # below\<rparr>))
       \<and> (is_typeof (fnode_of p) \<and> fdone' p \<longrightarrow>
            handlers H (s\<lparr>stateStack := p\<lparr>fvalue := Val VUndef\<rparr> # q # below\<rparr>)
              = (Inr None, s\<lparr>stateStack := q\<lparr>fvalue := Val (VStr ''undefined'')\<rparr> # below\<rparr>))"
proof -
  let ?t = "s\<lparr>stateStack := p # q # below\<rparr>"
  have l: "getValueFromScope H name ?t =
     (if is_typeof (fnode_of p) then (Inr VUndef, ?t)
      else (Inl (Guest C_REFERENCE_ERROR (name @ '' is not defined'')), ?t))"
    by (rule lookup_unbound[where path = path]) (use assms in simp_all)
  have 1: "\<not> is_typeof (fnode_of p) \<Longrightarrow>
            handlers H s = (Inl (Guest C_REFERENCE_ERROR (name @ '' is not defined'')), ?t)"
    using assms(1-4) l by (simp add: handlers_def top_frame_def stepIdentifier_def pop_def)
  have 2: "is_typeof (fnode_of p) \<Longrightarrow>
            handlers H s = (Inr None, s\<lparr>stateStack := p\<lparr>fvalue := Val VUndef\<rparr> # q # below\<rparr>)"
    using assms(1-4) l
    by (simp add: handlers_def top_frame_def stepIdentifier_def pop_def put_value_def set_top_def)
  have 3: "is_typeof (fnode_of p) \<Longrightarrow> fdone' p \<Longrightarrow>
            handlers H (s\<lparr>stateStack := p\<lparr>fvalue := Val VUndef\<rparr> # q # below\<rparr>)
              = (Inr None, s\<lparr>stateStack := q\<lparr>fvalue := Val (VStr ''undefined'')\<rparr> # below\<rparr>)"
    by (cases "fnode_of p")
       (simp_all add: is_typeof_def handlers_def top_frame_def stepUnaryExpression_def pop_def
          put_value_def set_top_def type_of_def)
  from 1 2 3 show ?thesis by blast
qed

text \<open>The theorem inside a function scope that holds only \<open>x\<close>: for \<open>typeof nope\<close>, and for
  the statement \<open>nope;\<close>.\<close>

theorem unresolved_identifier_witness:
  "handlers H0 (inner_world typeof_stack)
     = (Inr None, inner_world ((hd (tl typeof_stack))\<lparr>fvalue := Val VUndef\<rparr> # tl (tl typeof_stack)))
   \<and> handlers H0 (inner_world ((hd (tl typeof_stack))\<lparr>fvalue := Val VUndef\<rparr> # tl (tl typeof_stack)))
     = (Inr None, inner_world [(hd (tl (tl typeof_stack)))\<lparr>fvalue := Val (VStr ''undefined'')\<rparr>,
                               State (Program 12 []) 0])
   \<and> handlers H0 (inner_world nope_stack)
     = (Inl (Guest C_REFERENCE_ERROR ''nope is not defined''), inner_world (tl nope_stack))"
proof -
  have a: "stateStack (inner_world typeof_stack)
      = hd typeof_stack # hd (tl typeof_stack) # hd (tl (tl typeof_stack)) # [State (Program 12 []) 0]"
    by (simp add: in_fields typeof_stack_def)
  have b: "fnode_of (hd typeof_stack) = Identifier 11 ''nope''" "\<not> components (hd typeof_stack)"
    "fscope (hd (tl typeof_stack)) = Suc 0" "is_typeof (fnode_of (hd (tl typeof_stack)))"
    "fdone' (hd (tl typeof_stack))"
    by (simp_all add: typeof_stack_def State_def is_typeof_def)
  have c: "stateStack (inner_world nope_stack)
      = hd nope_stack # hd (tl nope_stack) # State (Program 5 []) 0 # []"
    by (simp add: in_fields nope_stack_def)
  have d: "fnode_of (hd nope_stack) = Identifier 4 ''nope''" "\<not> components (hd nope_stack)"
    "fscope (hd (tl nope_stack)) = Suc 0" "\<not> is_typeof (fnode_of (hd (tl nope_stack)))"
    by (simp_all add: nope_stack_def State_def is_typeof_def)
  have g: "\<And>fs. \<not> getterStep (inner_world fs)" by (simp add: in_fields)
  have h: "\<And>fs. \<forall>c\<in>set [Suc 0]. \<not> has_key (properties (obj_at (inner_world fs)
                 (sobject (scopes (inner_world fs) ! c)))) ''nope''"
    using in_scope_obj by simp
  have i: "\<And>fs. hasProperty H0 (inner_world fs)
      (VObj (sobject (scopes (inner_world fs) ! globalScope (inner_world fs)))) ''nope'' = Inr False"
    by (simp add: in_fields in_has_nope)
  have sb: "scopes_below (length (scopes (inner_world typeof_stack)) + 1) (inner_world typeof_stack)
               (Some (fscope (hd (tl typeof_stack)))) = Some [Suc 0]"
    unfolding b(3) by (rule in_scopes_below)
  from unresolved_identifier[OF a b(1,2) g sb h i] b(4,5)
  have 1: "handlers H0 (inner_world typeof_stack)
     = (Inr None, inner_world ((hd (tl typeof_stack))\<lparr>fvalue := Val VUndef\<rparr> # tl (tl typeof_stack)))
   \<and> handlers H0 (inner_world ((hd (tl typeof_stack))\<lparr>fvalue := Val VUndef\<rparr> # tl (tl typeof_stack)))
     = (Inr None, inner_world [(hd (tl (tl typeof_stack)))\<lparr>fvalue := Val (VStr ''undefined'')\<rparr>,
                               State (Program 12 []) 0])"
    by (simp add: in_stack typeof_stack_def)
  have sc: "scopes_below (length (scopes (inner_world nope_stack)) + 1) (inner_world nope_stack)
               (Some (fscope (hd (tl nope_stack)))) = Some [Suc 0]"
    unfolding d(3) by (rule in_scopes_below)
  from unresolved_identifier[OF c d(1,2) g sc h i] d(4)
  have 2: "handlers H0 (inner_world nope_stack)
     = (Inl (Guest C_REFERENCE_ERROR ''nope is not defined''), inner_world (tl nope_stack))"
    by (simp add: in_stack nope_stack_def)
  from 1 2 show ?thesis by simp
qed

section \<open>C8: run\<close>




end
